theory Spec2Isabelle
  imports Main "HOL-Library.List_Lexorder"
begin

section \<open>Python strings\<close>

text \<open>
  A Python \<open>str\<close> is a sequence of Unicode code points: a list of integers, as \<^verbatim>\<open>ord\<close>
  gives them. Lists of numbers are ordered lexicographically, which is the order in which Python
  compares and sorts strings. \<open>str\<close> turns an ASCII literal of the source into such a
  list; the few non-ASCII characters of the source (emoji, arrows, the rupee sign, the em
  dash) are written as their code points.
\<close>

type_synonym pystr = "int list"

definition str :: "string \<Rightarrow> pystr" where
  "str s = map of_char s"

definition ascii :: "pystr \<Rightarrow> bool" where
  "ascii s = list_all (\<lambda>c. 0 \<le> c \<and> c < 128) s"

text \<open>On ASCII text \<^verbatim>\<open>s.lower()\<close> maps A to Z onto a to z and changes nothing else.\<close>

definition lower_ascii :: "pystr \<Rightarrow> pystr" where
  "lower_ascii s = map (\<lambda>c. if 65 \<le> c \<and> c \<le> 90 then c + 32 else c) s"

text \<open>
  On ASCII text \<^verbatim>\<open>s.capitalize()\<close> puts the first character in upper case and the others
  in lower case.
\<close>

definition capitalize_ascii :: "pystr \<Rightarrow> pystr" where
  "capitalize_ascii s =
     (case s of
        [] \<Rightarrow> []
      | c # cs \<Rightarrow> (if 97 \<le> c \<and> c \<le> 122 then c - 32 else c) # lower_ascii cs)"

text \<open>
  On other text the two methods follow the Unicode database of the interpreter that runs
  the script (full case mappings, the final sigma, title case), which is no part of the
  repository. That part is a parameter of the model: what \<^verbatim>\<open>str.lower\<close> and
  \<^verbatim>\<open>str.capitalize\<close> return for a string with a non-ASCII character.
\<close>

record unicode_db =
  lower_full :: "pystr \<Rightarrow> pystr"
  capitalize_full :: "pystr \<Rightarrow> pystr"

text \<open>\<^verbatim>\<open>s.lower()\<close>\<close>

definition lower :: "unicode_db \<Rightarrow> pystr \<Rightarrow> pystr" where
  "lower db s = (if ascii s then lower_ascii s else lower_full db s)"

text \<open>\<^verbatim>\<open>s.capitalize()\<close>\<close>

definition capitalize :: "unicode_db \<Rightarrow> pystr \<Rightarrow> pystr" where
  "capitalize db s = (if ascii s then capitalize_ascii s else capitalize_full db s)"

text \<open>
  A database with no cased character outside ASCII. It stands in where a statement
  without variables needs a database; at ASCII text no database is consulted.
\<close>

definition plain_db :: unicode_db where
  "plain_db = \<lparr>lower_full = (\<lambda>s. s), capitalize_full = (\<lambda>s. s)\<rparr>"

text \<open>
  A database that knows one cased letter outside ASCII: U+00C9, the capital E with acute,
  whose lower case is U+00E9.
\<close>

definition e_acute_db :: unicode_db where
  "e_acute_db =
     \<lparr>lower_full = map (\<lambda>c. if c = 0xC9 then 0xE9 else if 65 \<le> c \<and> c \<le> 90 then c + 32 else c),
      capitalize_full = (\<lambda>s. s)\<rparr>"

text \<open>
  Two names are case variants of each other when \<^verbatim>\<open>str.lower\<close> gives the same for both.
\<close>

definition case_variant :: "unicode_db \<Rightarrow> pystr \<Rightarrow> pystr \<Rightarrow> bool" where
  "case_variant db v k = (lower db v = lower db k)"

text \<open>
  The code points that \<^verbatim>\<open>str.isspace\<close> accepts, and \<^verbatim>\<open>str.strip\<close> removes: tab, LF, VT,
  FF, CR, FS, GS, RS, US, space, NEL, the no-break space, the Ogham space mark, U+2000 to
  U+200A, the line and paragraph separators, the narrow no-break space, the medium
  mathematical space and the ideographic space.
\<close>

definition isspace :: "int \<Rightarrow> bool" where
  "isspace c =
     (c \<in> set [0x09, 0x0A, 0x0B, 0x0C, 0x0D, 0x1C, 0x1D, 0x1E, 0x1F, 0x20, 0x85, 0xA0,
                0x1680, 0x2000, 0x2001, 0x2002, 0x2003, 0x2004, 0x2005, 0x2006, 0x2007,
                0x2008, 0x2009, 0x200A, 0x2028, 0x2029, 0x202F, 0x205F, 0x3000])"

text \<open>\<^verbatim>\<open>s.strip()\<close>\<close>

definition strip :: "pystr \<Rightarrow> pystr" where
  "strip s = rev (dropWhile isspace (rev (dropWhile isspace s)))"

text \<open>\<^verbatim>\<open>s.startswith(p)\<close>\<close>

definition startswith :: "pystr \<Rightarrow> pystr \<Rightarrow> bool" where
  "startswith s p = (take (length p) s = p)"

text \<open>\<^verbatim>\<open>sub in s\<close>\<close>

fun str_in :: "pystr \<Rightarrow> pystr \<Rightarrow> bool" where
  "str_in sub [] = (sub = [])"
| "str_in sub (c # cs) = (startswith (c # cs) sub \<or> str_in sub cs)"

text \<open>
  \<^verbatim>\<open>s.replace(old, new)\<close>: every occurrence of \<open>old\<close>, found from the left and without
  overlaps, becomes \<open>new\<close>.
\<close>

function replace_from :: "pystr \<Rightarrow> pystr \<Rightarrow> pystr \<Rightarrow> pystr" where
  "replace_from old new [] = []"
| "replace_from old new (c # cs) =
     (if old \<noteq> [] \<and> startswith (c # cs) old
      then new @ replace_from old new (drop (length old) (c # cs))
      else c # replace_from old new cs)"
  by pat_completeness auto
termination
  by (relation "measure (\<lambda>(old, new, s). length s)") auto

definition replace :: "pystr \<Rightarrow> pystr \<Rightarrow> pystr \<Rightarrow> pystr" where
  "replace s old new =
     (if old = [] then new @ concat (map (\<lambda>c. c # new) s) else replace_from old new s)"

datatype py_error = KeyError | ValueError | CollaboratorError

text \<open>The text before and the text after the first occurrence of \<open>sep\<close>.\<close>

fun find_split :: "pystr \<Rightarrow> pystr \<Rightarrow> (pystr \<times> pystr) option" where
  "find_split sep [] = (if sep = [] then Some ([], []) else None)"
| "find_split sep (c # cs) =
     (if startswith (c # cs) sep then Some ([], drop (length sep) (c # cs))
      else map_option (\<lambda>(a, b). (c # a, b)) (find_split sep cs))"

text \<open>\<^verbatim>\<open>s.split(sep, 1)\<close>; Python raises ValueError for an empty separator.\<close>

definition split_max1 :: "pystr \<Rightarrow> pystr \<Rightarrow> py_error + pystr list" where
  "split_max1 s sep =
     (if sep = [] then Inl ValueError
      else Inr (case find_split sep s of None \<Rightarrow> [s] | Some (a, b) \<Rightarrow> [a, b]))"

text \<open>
  \<^verbatim>\<open>p1, p2 = parts\<close>: unpacking a list that does not hold exactly two items raises
  ValueError.
\<close>

definition unpack2 :: "py_error + pystr list \<Rightarrow> py_error + (pystr option \<times> pystr option)" where
  "unpack2 r =
     (case r of
        Inl e \<Rightarrow> Inl e
      | Inr [a, b] \<Rightarrow> Inr (Some a, Some b)
      | Inr _ \<Rightarrow> Inl ValueError)"

section \<open>Python dictionaries\<close>

text \<open>
  A \<open>dict\<close> keeps its keys in insertion order: an association list. Storing under a key
  that is present replaces the value where the key stands; a new key goes to the end.
\<close>

type_synonym ('k, 'v) dict = "('k \<times> 'v) list"

definition dict_keys :: "('k, 'v) dict \<Rightarrow> 'k list" where
  "dict_keys d = map fst d"

text \<open>\<^verbatim>\<open>d.get(k)\<close>\<close>

definition dict_get :: "('k, 'v) dict \<Rightarrow> 'k \<Rightarrow> 'v option" where
  "dict_get d k = map_of d k"

text \<open>\<^verbatim>\<open>d.get(k, default)\<close>\<close>

definition dict_get_default :: "('k, 'v) dict \<Rightarrow> 'k \<Rightarrow> 'v \<Rightarrow> 'v" where
  "dict_get_default d k dflt = (case map_of d k of None \<Rightarrow> dflt | Some v \<Rightarrow> v)"

text \<open>\<^verbatim>\<open>d[k]\<close>\<close>

definition dict_index :: "('k, 'v) dict \<Rightarrow> 'k \<Rightarrow> py_error + 'v" where
  "dict_index d k = (case map_of d k of None \<Rightarrow> Inl KeyError | Some v \<Rightarrow> Inr v)"

text \<open>\<^verbatim>\<open>d[k] = v\<close>\<close>

fun dict_set :: "('k, 'v) dict \<Rightarrow> 'k \<Rightarrow> 'v \<Rightarrow> ('k, 'v) dict" where
  "dict_set [] k v = [(k, v)]"
| "dict_set ((a, b) # d) k v = (if a = k then (k, v) # d else (a, b) # dict_set d k v)"

section \<open>The knowledge base\<close>

text \<open>
  The values of \<open>agri_data\<close> are dictionaries from attribute names to texts. The program
  tests \<^verbatim>\<open>isinstance(details, dict)\<close> wherever it reads one, so an entry that is a plain
  text is part of the data model too.
\<close>

datatype entry = Dict "(pystr, pystr) dict" | Info pystr

definition newline :: pystr where
  "newline = [0x0A]"

definition rupee :: pystr where
  "rupee = [0x20B9]"

definition em_dash :: pystr where
  "em_dash = [0x2014]"

definition cross_mark :: pystr where
  "cross_mark = [0x274C]"

definition bar_chart :: pystr where
  "bar_chart = [0x1F4CA]"

definition arrow :: pystr where
  "arrow = [0x2192]"

definition warning_sign :: pystr where
  "warning_sign = [0x26A0]"

text \<open>The literal of lines 7 to 55.\<close>

definition agri_data_value :: "(pystr, entry) dict" where
  "agri_data_value =
    [(str ''Wheat'', Dict
       [(str ''season'', str ''Rabi (October-March)''),
        (str ''soil'', str ''Loamy soil with good drainage''),
        (str ''water'', str ''Moderate irrigation; avoid waterlogging''),
        (str ''sowing'', str ''Mid-Oct to Nov; seed rate 100-125 kg/ha''),
        (str ''fertilizer'', str ''NPK 120:60:40 kg/ha''),
        (str ''harvesting'', str ''March-April when grains are hard and golden''),
        (str ''common_issues'', str ''Rust disease, waterlogging, lodging'')]),
     (str ''Rice'', Dict
       [(str ''season'', str ''Kharif (June-October) or Rabi in some regions''),
        (str ''soil'', str ''Clayey soil with high water retention''),
        (str ''water'', str ''Requires standing water in early stages; good drainage later''),
        (str ''sowing'', str ''Nursery raising and transplanting after 20-25 days''),
        (str ''fertilizer'', str ''Urea, DAP, MOP based on soil test''),
        (str ''harvesting'', str ''Oct-Nov when panicles turn golden, grains hard''),
        (str ''common_issues'', str ''Blast disease, brown planthopper, sheath blight'')]),
     (str ''Maize'', Dict
       [(str ''season'', str ''Both Kharif and Rabi; prefers warm conditions''),
        (str ''soil'', str ''Well-drained loam or silty loam''),
        (str ''water'', str ''Critical irrigation at tasseling and grain filling''),
        (str ''sowing'', str ''June-July (Kharif), seed rate ~20 kg/ha''),
        (str ''fertilizer'', str ''NPK 120:60:40 kg/ha; zinc if deficient''),
        (str ''harvesting'', str ''Cob dries and husk turns brown; Nov-Dec''),
        (str ''common_issues'', str ''Fall armyworm, stem borer, nitrogen deficiency'')]),
     (str ''Sugarcane'', Dict
       [(str ''season'', str ''Planting: Feb-April (spring) or Sept-Oct (autumn)''),
        (str ''soil'', str ''Fertile loam with good drainage and moisture retention''),
        (str ''water'', str ''High water requirement; regular irrigation''),
        (str ''sowing'', str ''Setts (2-3 bud pieces) in furrows; proper spacing''),
        (str ''fertilizer'', str ''High N requirement; split doses with micronutrients''),
        (str ''harvesting'', str ''10-12 months after planting; when brix is optimal''),
        (str ''common_issues'', str ''Red rot, smut, borers'')]),
     (str ''Government Schemes'', Dict
       [(str ''PM-KISAN'',
           rupee @ str ''6,000/year direct benefit to eligible farmers (in installments).''),
        (str ''Soil Health Card'', str ''Soil nutrient profile with fertilizer recommendations.''),
        (str ''Kisan Credit Card'',
           str ''Working capital loans for agriculture at subsidized rates.'')]),
     (str ''Best Practices'', Dict
       [(str ''Soil testing'', str ''Test soil every 2-3 years to optimize fertilizer use.''),
        (str ''IPM'', str ''Integrated Pest Management'' @ em_dash
           @ str ''monitor, use traps, bio-control, targeted sprays.''),
        (str ''Water management'', str ''Use mulching/drip to reduce water loss and weeds.''),
        (str ''Seed quality'',
           str ''Use certified, high-germination seeds suited to local climate.'')])]"

section \<open>The program state\<close>

datatype message = SystemMessage pystr | HumanMessage pystr | AIMessage pystr

text \<open>What the script puts on the page: \<^verbatim>\<open>st.markdown\<close> and \<^verbatim>\<open>st.warning\<close>.\<close>

datatype ui_event = Markdown pystr | Warning pystr

text \<open>
  The state that the functions of the script can reach: the module global \<open>agri_data\<close>,
  the conversation \<^verbatim>\<open>st.session_state.messages\<close>, and what the dispatch of a submission
  has written on the page (the fixed parts of the page and the replay of the conversation
  in lines 176 to 181 are not part of it).
\<close>

record app_state =
  agri_data :: "(pystr, entry) dict"
  messages :: "message list"
  page :: "ui_event list"

subsection \<open>The system prompt (lines 58 to 107)\<close>

definition format_details :: "unicode_db \<Rightarrow> pystr \<Rightarrow> (pystr, pystr) dict \<Rightarrow> pystr" where
  "format_details db formatted details =
     foldl (\<lambda>acc (key, val).
              acc @ str ''- '' @ capitalize db key @ str '': '' @ val @ newline)
       formatted details"

definition format_agri_info :: "unicode_db \<Rightarrow> (pystr, entry) dict \<Rightarrow> pystr" where
  "format_agri_info db data =
     foldl (\<lambda>formatted (item, details).
              (let formatted =
                     formatted @ newline @ newline @ str ''*'' @ item @ str ''*'' @ newline
               in case details of
                    Dict d \<Rightarrow> format_details db formatted d
                  | Info t \<Rightarrow> formatted @ str ''- Info: '' @ t @ newline))
       [] data"

definition system_prompt :: "pystr \<Rightarrow> pystr" where
  "system_prompt agri_info_text =
     str ''You are a helpful assistant for farmers and agriculture students. ''
     @ str ''Use only the following knowledge base to answer questions about crops, ''
     @ str ''seasons, soil, irrigation, fertilizer, sowing, harvesting, common issues, ''
     @ str ''best practices, and government schemes:'' @ newline
     @ agri_info_text @ newline
     @ str ''Rules:'' @ newline
     @ str ''- If information is not present above, say '' @ [0x27]
     @ str ''That information is not available.'' @ [0x27] @ newline
     @ str ''- Be concise, practical, and use simple language.'' @ newline
     @ str ''- If the user asks to compare two crops, present a clear, side-by-side ''
     @ str ''comparison of available attributes.'' @ newline"

text \<open>The state when the first submission arrives.\<close>

definition initial_state :: "unicode_db \<Rightarrow> app_state" where
  "initial_state db =
     \<lparr>agri_data = agri_data_value,
      messages = [SystemMessage (system_prompt (format_agri_info db agri_data_value))],
      page = []\<rparr>"

subsection \<open>The comparator (lines 110 to 132)\<close>

definition normalize_name_map :: "unicode_db \<Rightarrow> pystr list \<Rightarrow> (pystr, pystr) dict" where
  "normalize_name_map db keys = foldl (\<lambda>d k. dict_set d (lower db k) k) [] keys"

definition msg_not_found :: pystr where
  "msg_not_found =
     cross_mark @ str '' One or both crop names were not found. Please check the names.''"

definition msg_unsupported :: pystr where
  "msg_unsupported = cross_mark @ str '' Comparison is only supported for crop entries.''"

definition comparison_title :: "pystr \<Rightarrow> pystr \<Rightarrow> pystr" where
  "comparison_title k1 k2 =
     str ''### '' @ bar_chart @ str '' Comparison: '' @ k1 @ str '' vs '' @ k2 @ newline"

text \<open>One round of the loop of lines 128 to 131: the line appended for \<open>key\<close>.\<close>

definition comparison_row ::
  "unicode_db \<Rightarrow> pystr \<Rightarrow> pystr \<Rightarrow> (pystr, pystr) dict \<Rightarrow> (pystr, pystr) dict \<Rightarrow> pystr
     \<Rightarrow> pystr" where
  "comparison_row db k1 k2 d1 d2 key =
     (let v1 = dict_get_default d1 key (str ''N/A'');
          v2 = dict_get_default d2 key (str ''N/A'')
      in str ''- *'' @ capitalize db key @ str ''*: '' @ k1 @ str '' '' @ arrow @ str '' '' @ v1
         @ str '' | '' @ k2 @ str '' '' @ arrow @ str '' '' @ v2 @ newline)"

text \<open>\<^verbatim>\<open>x if isinstance(x, dict) else {}\<close>\<close>

definition dict_or_empty :: "entry \<Rightarrow> (pystr, pystr) dict" where
  "dict_or_empty e = (case e of Dict d \<Rightarrow> d | Info t \<Rightarrow> [])"

text \<open>
  The function reads \<open>agri_data\<close> from the state and hands the state back. A name that
  \<open>name_map\<close> does not hold gives \<open>None\<close>; \<^verbatim>\<open>not k1\<close> is true for \<open>None\<close> and for the
  empty string.
\<close>

definition compare_items ::
  "unicode_db \<Rightarrow> app_state \<Rightarrow> pystr \<Rightarrow> pystr \<Rightarrow> (py_error + pystr) \<times> app_state" where
  "compare_items db s name1 name2 =
     (let name_map = normalize_name_map db (dict_keys (agri_data s))
      in case (dict_get name_map (lower db name1), dict_get name_map (lower db name2)) of
           (Some k1, Some k2) \<Rightarrow>
             if k1 = [] \<or> k2 = [] then (Inr msg_not_found, s)
             else
               (case (dict_index (agri_data s) k1, dict_index (agri_data s) k2) of
                  (Inl e, _) \<Rightarrow> (Inl e, s)
                | (Inr e1, Inl e) \<Rightarrow> (Inl e, s)
                | (Inr e1, Inr e2) \<Rightarrow>
                    (let d1 = dict_or_empty e1; d2 = dict_or_empty e2
                     in if d1 = [] \<or> d2 = [] then (Inr msg_unsupported, s)
                        else
                          (let keys = sorted_list_of_set
                                        (set (dict_keys d1) \<union> set (dict_keys d2));
                               md = comparison_title k1 k2
                           in (Inr (foldl (\<lambda>md key. md @ comparison_row db k1 k2 d1 d2 key)
                                      md keys), s))))
         | _ \<Rightarrow> (Inr msg_not_found, s))"

subsection \<open>The browse list (line 141)\<close>

definition crop_like :: "entry \<Rightarrow> bool" where
  "crop_like v =
     (case v of
        Dict d \<Rightarrow> str ''season'' \<in> set (dict_keys d) \<or> str ''soil'' \<in> set (dict_keys d)
      | Info t \<Rightarrow> False)"

definition crop_like_items :: "app_state \<Rightarrow> pystr list" where
  "crop_like_items s = map fst (filter (\<lambda>(k, v). crop_like v) (agri_data s))"

subsection \<open>The dispatch of a submission (lines 151 to 174)\<close>

datatype routed = Compare pystr pystr | Malformed | Question

definition msg_usage :: pystr where
  "msg_usage = warning_sign @ str '' Please use: Compare [Crop 1] and [Crop 2]''"

text \<open>
  Lines 152 to 166: which branch a submission takes, and with which names the comparator
  is called. \<^verbatim>\<open>p1 and p2\<close> is false when either is \<open>None\<close> or empty.
\<close>

definition route :: "unicode_db \<Rightarrow> pystr \<Rightarrow> py_error + routed" where
  "route db user_input =
     (let low = strip (lower db user_input)
      in if startswith low (str ''compare'') then
           (let temp = strip (replace low (str ''compare'') [])
            in case (if str_in (str '' and '') temp
                     then unpack2 (split_max1 temp (str '' and ''))
                     else if str_in (str '' vs '') temp
                     then unpack2 (split_max1 temp (str '' vs ''))
                     else Inr (None, None)) of
                 Inl e \<Rightarrow> Inl e
               | Inr (Some p1, Some p2) \<Rightarrow>
                   if p1 \<noteq> [] \<and> p2 \<noteq> [] then Inr (Compare (strip p1) (strip p2))
                   else Inr Malformed
               | Inr _ \<Rightarrow> Inr Malformed)
         else Inr Question)"

text \<open>
  The chat model is a collaborator outside the program: a function from the conversation
  to its reply, or to the error it raises. An exception leaves the script at once; the
  state is what had been written until then.
\<close>

definition on_submit ::
  "unicode_db \<Rightarrow> (message list \<Rightarrow> py_error + message) \<Rightarrow> app_state \<Rightarrow> pystr
     \<Rightarrow> py_error option \<times> app_state" where
  "on_submit db llm s user_input =
     (if user_input = [] then (None, s)
      else
        (case route db user_input of
           Inl e \<Rightarrow> (Some e, s)
         | Inr (Compare c1 c2) \<Rightarrow>
             (case compare_items db s c1 c2 of
                (Inl e, s') \<Rightarrow> (Some e, s')
              | (Inr md, s') \<Rightarrow> (None, s'\<lparr>page := page s' @ [Markdown md]\<rparr>))
         | Inr Malformed \<Rightarrow> (None, s\<lparr>page := page s @ [Warning msg_usage]\<rparr>)
         | Inr Question \<Rightarrow>
             (let s1 = s\<lparr>messages := messages s @ [HumanMessage user_input]\<rparr>
              in case llm (messages s1) of
                   Inl e \<Rightarrow> (Some e, s1)
                 | Inr response \<Rightarrow> (None, s1\<lparr>messages := messages s1 @ [response]\<rparr>))))"

text \<open>A chat model that cannot be reached: every call raises.\<close>

definition unreachable_llm :: "message list \<Rightarrow> py_error + message" where
  "unreachable_llm conversation = Inl CollaboratorError"

subsection \<open>The routing rule as the specification words it\<close>

text \<open>
  The specification's rule, word for word: the line, trimmed and without regard to case,
  begins with the word \<open>compare\<close> (the word ends where the line ends or a space follows);
  what follows the word is split at the first \<open>'' and ''\<close>, or else at the first
  \<open>'' vs ''\<close>; each side is trimmed.
\<close>

definition split_sides :: "pystr \<Rightarrow> routed" where
  "split_sides remainder =
     (case find_split (str '' and '') remainder of
        Some (a, b) \<Rightarrow> Compare (strip a) (strip b)
      | None \<Rightarrow>
          (case find_split (str '' vs '') remainder of
             Some (a, b) \<Rightarrow> Compare (strip a) (strip b)
           | None \<Rightarrow> Malformed))"

definition begins_with_word :: "pystr \<Rightarrow> pystr \<Rightarrow> bool" where
  "begins_with_word s w =
     (startswith s w \<and> (case drop (length w) s of [] \<Rightarrow> True | c # cs \<Rightarrow> isspace c))"

definition route_spec :: "unicode_db \<Rightarrow> pystr \<Rightarrow> routed" where
  "route_spec db user_input =
     (let low = strip (lower db user_input)
      in if begins_with_word low (str ''compare'')
         then split_sides (drop (length (str ''compare'')) low)
         else Question)"

text \<open>
  The same rule with a test for the leading characters \<open>compare\<close>, whatever follows them,
  and with the remainder trimmed before a separator is looked for.
\<close>

definition route_spec_trimmed :: "unicode_db \<Rightarrow> pystr \<Rightarrow> routed" where
  "route_spec_trimmed db user_input =
     (let low = strip (lower db user_input)
      in if startswith low (str ''compare'')
         then split_sides (strip (drop (length (str ''compare'')) low))
         else Question)"

section \<open>Case mapping and the name map\<close>

lemma lower_on_ascii: "ascii s \<Longrightarrow> lower db s = lower_ascii s"
  by (simp add: lower_def)

lemma map_of_dict_set: "map_of (dict_set d k v) = (map_of d)(k \<mapsto> v)"
  by (induction d k v rule: dict_set.induct) auto

lemma keys_dict_set: "set (dict_keys (dict_set d k v)) = insert k (set (dict_keys d))"
  by (induction d k v rule: dict_set.induct) (auto simp: dict_keys_def)

text \<open>The loop of the comprehension, started from any dictionary.\<close>

lemma name_map_foldl_get:
  "map_of (foldl (\<lambda>d k. dict_set d (lower db k) k) d0 ks) l =
     (case filter (\<lambda>k. lower db k = l) ks of
        [] \<Rightarrow> map_of d0 l
      | x # xs \<Rightarrow> Some (last (x # xs)))"
proof (induction ks arbitrary: d0)
  case Nil
  show ?case by simp
next
  case (Cons k ks)
  show ?case
    by (simp add: Cons.IH map_of_dict_set split: list.splits)
qed

lemma name_map_foldl_keys:
  "set (dict_keys (foldl (\<lambda>d k. dict_set d (lower db k) k) d0 ks)) =
     set (dict_keys d0) \<union> lower db ` set ks"
  by (induction ks arbitrary: d0) (auto simp: keys_dict_set)

lemma normalize_name_map_get:
  "dict_get (normalize_name_map db ks) l =
     (case filter (\<lambda>k. lower db k = l) ks of
        [] \<Rightarrow> None
      | x # xs \<Rightarrow> Some (last (x # xs)))"
  by (simp add: normalize_name_map_def dict_get_def name_map_foldl_get split: list.splits)

lemma normalize_name_map_Some:
  assumes "dict_get (normalize_name_map db ks) l = Some k"
  shows "k \<in> set ks \<and> lower db k = l"
proof -
  from assms obtain x xs
    where f: "filter (\<lambda>k. lower db k = l) ks = x # xs" and k: "k = last (x # xs)"
    by (auto simp: normalize_name_map_get split: list.splits)
  have "last (x # xs) \<in> set (x # xs)" by (rule last_in_set) simp
  with f k have "k \<in> set (filter (\<lambda>k. lower db k = l) ks)" by simp
  then show ?thesis by simp
qed

lemma normalize_name_map_None:
  "dict_get (normalize_name_map db ks) l = None \<longleftrightarrow> l \<notin> lower db ` set ks"
proof -
  have "filter (\<lambda>k. lower db k = l) ks = [] \<longleftrightarrow> l \<notin> lower db ` set ks"
    by (auto simp: filter_empty_conv)
  then show ?thesis
    by (cases "filter (\<lambda>k. lower db k = l) ks") (simp_all add: normalize_name_map_get)
qed

lemma normalize_name_map_variant:
  assumes k: "k \<in> set ks" and v: "lower db v = lower db k"
  shows "\<exists>k' \<in> set ks. lower db k' = lower db k
           \<and> dict_get (normalize_name_map db ks) (lower db v) = Some k'"
proof -
  have "lower db v \<in> lower db ` set ks" using k v by simp
  then obtain k' where g: "dict_get (normalize_name_map db ks) (lower db v) = Some k'"
    using normalize_name_map_None [of db ks "lower db v"] by auto
  from normalize_name_map_Some [OF g] v g show ?thesis by auto
qed

lemma normalize_name_map_distinct:
  assumes d: "distinct (map (lower db) ks)" and k: "k \<in> set ks"
    and v: "lower db v = lower db k"
  shows "dict_get (normalize_name_map db ks) (lower db v) = Some k"
proof -
  from normalize_name_map_variant [OF k v]
  obtain k' where k': "k' \<in> set ks" "lower db k' = lower db k"
    and g: "dict_get (normalize_name_map db ks) (lower db v) = Some k'"
    by auto
  from d k k' have "k' = k" by (meson distinct_map inj_onD)
  with g show ?thesis by simp
qed

text \<open>
  C10. Whatever \<^verbatim>\<open>str.lower\<close> does outside ASCII, the dictionary that
  \<open>normalize_name_map\<close> returns has exactly the lower-case forms of the given keys as its
  keys. Under a lower-case form \<open>l\<close> it holds the last of the given keys whose lower-case
  form is \<open>l\<close>: a later key overwrites an earlier one with the same lower-case form, and
  where no two keys share a lower-case form \<open>k.lower()\<close> is mapped to \<open>k\<close> for every key
  \<open>k\<close>. The lookup of the lower-case form of any case variant of a given key therefore
  finds a key with that lower-case form.
\<close>

theorem normalize_name_map_spec:
  "set (dict_keys (normalize_name_map db keys)) = lower db ` set keys
   \<and> dict_get (normalize_name_map db keys) l =
       (case filter (\<lambda>k. lower db k = l) keys of
          [] \<Rightarrow> None
        | x # xs \<Rightarrow> Some (last (x # xs)))
   \<and> (distinct (map (lower db) keys) \<longrightarrow>
        (\<forall>k \<in> set keys. dict_get (normalize_name_map db keys) (lower db k) = Some k))
   \<and> (\<forall>k \<in> set keys. \<forall>v. case_variant db v k \<longrightarrow>
        (\<exists>k' \<in> set keys. case_variant db k' k
           \<and> dict_get (normalize_name_map db keys) (lower db v) = Some k'))"
proof (intro conjI)
  show "set (dict_keys (normalize_name_map db keys)) = lower db ` set keys"
    by (simp add: normalize_name_map_def name_map_foldl_keys) (simp add: dict_keys_def)
  show "dict_get (normalize_name_map db keys) l =
       (case filter (\<lambda>k. lower db k = l) keys of
          [] \<Rightarrow> None
        | x # xs \<Rightarrow> Some (last (x # xs)))"
    by (rule normalize_name_map_get)
  show "\<forall>k \<in> set keys. \<forall>v. case_variant db v k \<longrightarrow>
        (\<exists>k' \<in> set keys. case_variant db k' k
           \<and> dict_get (normalize_name_map db keys) (lower db v) = Some k')"
    unfolding case_variant_def using normalize_name_map_variant by blast
  show "distinct (map (lower db) keys) \<longrightarrow>
        (\<forall>k \<in> set keys. dict_get (normalize_name_map db keys) (lower db k) = Some k)"
    using normalize_name_map_distinct [OF _ _ refl] by blast
qed

theorem normalize_name_map_spec_witness:
  "distinct (map (lower plain_db) [str ''Wheat'', str ''Rice'', str ''Best Practices''])
   \<and> str ''Rice'' \<in> set [str ''Wheat'', str ''Rice'', str ''Best Practices'']
   \<and> dict_get (normalize_name_map plain_db [str ''Wheat'', str ''Rice'', str ''Best Practices''])
        (lower plain_db (str ''Rice'')) = Some (str ''Rice'')
   \<and> str ''Wheat'' \<in> set [str ''Wheat'', str ''Rice'', str ''WHEAT'']
   \<and> case_variant plain_db (str ''wHeAt'') (str ''Wheat'')
   \<and> dict_get (normalize_name_map plain_db [str ''Wheat'', str ''Rice'', str ''WHEAT''])
        (lower plain_db (str ''wHeAt'')) = Some (str ''WHEAT'')
   \<and> [0xC9] \<in> set [[0xC9], [0xE9 :: int]]
   \<and> case_variant e_acute_db [0xE9] [0xC9]
   \<and> dict_get (normalize_name_map e_acute_db [[0xC9], [0xE9]]) (lower e_acute_db [0xE9])
       = Some [0xE9]
   \<and> dict_keys (normalize_name_map e_acute_db [[0xC9], [0xE9]]) = [[0xE9]]"
proof -
  have d: "distinct (map (lower plain_db) [str ''Wheat'', str ''Rice'', str ''Best Practices''])"
    by code_simp
  have m: "str ''Rice'' \<in> set [str ''Wheat'', str ''Rice'', str ''Best Practices'']"
    by simp
  have m': "str ''Wheat'' \<in> set [str ''Wheat'', str ''Rice'', str ''WHEAT'']"
    by simp
  have v: "case_variant plain_db (str ''wHeAt'') (str ''Wheat'')"
    by code_simp
  have f: "filter (\<lambda>k. lower plain_db k = lower plain_db (str ''wHeAt''))
             [str ''Wheat'', str ''Rice'', str ''WHEAT''] = [str ''Wheat'', str ''WHEAT'']"
    by code_simp
  from normalize_name_map_spec [of plain_db "[str ''Wheat'', str ''Rice'', str ''Best Practices'']"]
    d m
  have a: "dict_get (normalize_name_map plain_db [str ''Wheat'', str ''Rice'', str ''Best Practices''])
             (lower plain_db (str ''Rice'')) = Some (str ''Rice'')"
    by blast
  have "dict_get (normalize_name_map plain_db [str ''Wheat'', str ''Rice'', str ''WHEAT''])
          (lower plain_db (str ''wHeAt''))
          = (case filter (\<lambda>k. lower plain_db k = lower plain_db (str ''wHeAt''))
                    [str ''Wheat'', str ''Rice'', str ''WHEAT''] of
               [] \<Rightarrow> None
             | x # xs \<Rightarrow> Some (last (x # xs)))"
    by (rule conjunct1 [OF conjunct2 [OF normalize_name_map_spec]])
  then have b: "dict_get (normalize_name_map plain_db [str ''Wheat'', str ''Rice'', str ''WHEAT''])
                  (lower plain_db (str ''wHeAt'')) = Some (str ''WHEAT'')"
    by (simp only: f) simp
  have m'': "[0xC9] \<in> set [[0xC9], [0xE9 :: int]]"
    by simp
  have v': "case_variant e_acute_db [0xE9] [0xC9]"
    by code_simp
  have f': "filter (\<lambda>k. lower e_acute_db k = lower e_acute_db [0xE9]) [[0xC9], [0xE9]]
              = [[0xC9], [0xE9]]"
    by code_simp
  have "dict_get (normalize_name_map e_acute_db [[0xC9], [0xE9]]) (lower e_acute_db [0xE9])
          = (case filter (\<lambda>k. lower e_acute_db k = lower e_acute_db [0xE9])
                    [[0xC9], [0xE9]] of
               [] \<Rightarrow> None
             | x # xs \<Rightarrow> Some (last (x # xs)))"
    by (rule conjunct1 [OF conjunct2 [OF normalize_name_map_spec]])
  then have c: "dict_get (normalize_name_map e_acute_db [[0xC9], [0xE9]])
                  (lower e_acute_db [0xE9]) = Some [0xE9]"
    by (simp only: f') simp
  have e: "dict_keys (normalize_name_map e_acute_db [[0xC9], [0xE9]]) = [[0xE9]]"
    by code_simp
  from d m m' v a b m'' v' c e show ?thesis by (intro conjI)
qed

section \<open>The comparator\<close>

lemma dict_index_member:
  assumes "k \<in> set (dict_keys d)"
  shows "\<exists>e. dict_index d k = Inr e \<and> map_of d k = Some e"
proof -
  from assms have "k \<in> fst ` set d" by (simp add: dict_keys_def)
  then have "map_of d k \<noteq> None" by (simp add: map_of_eq_None_iff)
  then show ?thesis by (auto simp: dict_index_def)
qed

lemma foldl_append_rows: "foldl (\<lambda>md key. md @ f key) md keys = md @ concat (map f keys)"
  by (induction keys arbitrary: md) simp_all

lemma compare_items_None1:
  "dict_get (normalize_name_map db (dict_keys (agri_data s))) (lower db name1) = None \<Longrightarrow>
   compare_items db s name1 name2 = (Inr msg_not_found, s)"
  unfolding compare_items_def Let_def by simp

lemma compare_items_None2:
  "dict_get (normalize_name_map db (dict_keys (agri_data s))) (lower db name2) = None \<Longrightarrow>
   compare_items db s name1 name2 = (Inr msg_not_found, s)"
  unfolding compare_items_def Let_def by (simp split: option.split)

lemma compare_items_Some:
  assumes "dict_get (normalize_name_map db (dict_keys (agri_data s))) (lower db name1) = Some k1"
    and "dict_get (normalize_name_map db (dict_keys (agri_data s))) (lower db name2) = Some k2"
    and "map_of (agri_data s) k1 = Some e1"
    and "map_of (agri_data s) k2 = Some e2"
  shows "compare_items db s name1 name2 =
     (if k1 = [] \<or> k2 = [] then (Inr msg_not_found, s)
      else if dict_or_empty e1 = [] \<or> dict_or_empty e2 = [] then (Inr msg_unsupported, s)
      else (Inr (comparison_title k1 k2
                 @ concat (map (comparison_row db k1 k2 (dict_or_empty e1) (dict_or_empty e2))
                     (sorted_list_of_set (set (dict_keys (dict_or_empty e1))
                        \<union> set (dict_keys (dict_or_empty e2)))))), s))"
  unfolding compare_items_def Let_def
  by (simp add: assms dict_index_def foldl_append_rows)

lemma compare_items_unresolved:
  assumes "lower db name1 \<notin> lower db ` set (dict_keys (agri_data s))
           \<or> lower db name2 \<notin> lower db ` set (dict_keys (agri_data s))"
  shows "compare_items db s name1 name2 = (Inr msg_not_found, s)"
proof -
  from assms have "dict_get (normalize_name_map db (dict_keys (agri_data s))) (lower db name1) = None
      \<or> dict_get (normalize_name_map db (dict_keys (agri_data s))) (lower db name2) = None"
    by (simp add: normalize_name_map_None)
  then show ?thesis
    by (rule disjE) (simp_all add: compare_items_None1 compare_items_None2)
qed

lemma compare_items_returns: "\<exists>text. compare_items db s name1 name2 = (Inr text, s)"
proof (cases "dict_get (normalize_name_map db (dict_keys (agri_data s))) (lower db name1)")
  case None
  then show ?thesis by (simp add: compare_items_None1)
next
  case k1: (Some k1)
  show ?thesis
  proof (cases "dict_get (normalize_name_map db (dict_keys (agri_data s))) (lower db name2)")
    case None
    then show ?thesis by (simp add: compare_items_None2)
  next
    case k2: (Some k2)
    from normalize_name_map_Some [OF k1] have "k1 \<in> set (dict_keys (agri_data s))"
      by simp
    from dict_index_member [OF this] obtain e1 where e1: "map_of (agri_data s) k1 = Some e1"
      by auto
    from normalize_name_map_Some [OF k2] have "k2 \<in> set (dict_keys (agri_data s))"
      by simp
    from dict_index_member [OF this] obtain e2 where e2: "map_of (agri_data s) k2 = Some e2"
      by auto
    show ?thesis
      by (simp add: compare_items_Some [OF k1 k2 e1 e2])
  qed
qed

lemma compare_items_state: "snd (compare_items db s name1 name2) = s"
  using compare_items_returns [of db s name1 name2] by auto

lemma compare_items_kb_only:
  fixes u :: app_state
  shows "compare_items db u name1 name2 =
      (fst (compare_items db \<lparr>agri_data = agri_data u, messages = [], page = []\<rparr> name1 name2), u)"
proof -
  let ?v = "\<lparr>agri_data = agri_data u, messages = [], page = []\<rparr>"
  show ?thesis
  proof (cases "dict_get (normalize_name_map db (dict_keys (agri_data u))) (lower db name1)")
    case None
    then show ?thesis by (simp add: compare_items_None1)
  next
    case k1: (Some k1)
    show ?thesis
    proof (cases "dict_get (normalize_name_map db (dict_keys (agri_data u))) (lower db name2)")
      case None
      then show ?thesis by (simp add: compare_items_None2)
    next
      case k2: (Some k2)
      from normalize_name_map_Some [OF k1] have "k1 \<in> set (dict_keys (agri_data u))"
        by simp
      from dict_index_member [OF this] obtain e1 where e1: "map_of (agri_data u) k1 = Some e1"
        by auto
      from normalize_name_map_Some [OF k2] have "k2 \<in> set (dict_keys (agri_data u))"
        by simp
      from dict_index_member [OF this] obtain e2 where e2: "map_of (agri_data u) k2 = Some e2"
        by auto
      have v: "agri_data ?v = agri_data u" by simp
      show ?thesis
        using k1 k2 e1 e2
        by (simp add: compare_items_Some [of db u name1 k1 name2 k2 e1 e2]
            compare_items_Some [of db ?v name1 k1 name2 k2 e1 e2])
    qed
  qed
qed

lemma compare_items_frame:
  assumes "agri_data t = agri_data s"
  shows "fst (compare_items db t name1 name2) = fst (compare_items db s name1 name2)"
  using compare_items_kb_only [of db t name1 name2] compare_items_kb_only [of db s name1 name2] assms
  by simp

lemma compare_items_lower:
  "lower db a = lower db a' \<Longrightarrow> lower db b = lower db b' \<Longrightarrow>
   compare_items db s a b = compare_items db s a' b'"
  by (simp add: compare_items_def)

lemma comparison_row_text:
  "comparison_row db k1 k2 d1 d2 =
     (\<lambda>key. str ''- *'' @ capitalize db key @ str ''*: ''
        @ k1 @ str '' '' @ arrow @ str '' ''
        @ (case map_of d1 key of None \<Rightarrow> str ''N/A'' | Some v \<Rightarrow> v)
        @ str '' | ''
        @ k2 @ str '' '' @ arrow @ str '' ''
        @ (case map_of d2 key of None \<Rightarrow> str ''N/A'' | Some v \<Rightarrow> v)
        @ newline)"
  by (rule ext) (simp add: comparison_row_def dict_get_default_def)

lemma crop_like_nonempty: "crop_like (Dict d) \<Longrightarrow> d \<noteq> []"
  by (auto simp: crop_like_def dict_keys_def)

text \<open>
  C1. Let the display names of the knowledge base be non-empty (as they are in
  \<open>agri_data\<close>), and let the two names resolve, through the name map, to entries that are
  attribute-shaped: dictionaries holding \<open>season\<close> or \<open>soil\<close>. Then \<open>compare_items\<close>
  returns the title line followed by one row for each key of the sorted list of the
  union of the two entries' keys, with no key twice; the row of a key shows the value of
  each entry under that key, and the text \<open>N/A\<close> where an entry has no such key.
\<close>

theorem compare_items_attribute_rows:
  assumes names: "[] \<notin> set (dict_keys (agri_data s))"
    and r1: "dict_get (normalize_name_map db (dict_keys (agri_data s))) (lower db name1) = Some k1"
    and r2: "dict_get (normalize_name_map db (dict_keys (agri_data s))) (lower db name2) = Some k2"
    and e1: "map_of (agri_data s) k1 = Some (Dict d1)" and c1: "crop_like (Dict d1)"
    and e2: "map_of (agri_data s) k2 = Some (Dict d2)" and c2: "crop_like (Dict d2)"
  shows "let keys = sorted_list_of_set (set (dict_keys d1) \<union> set (dict_keys d2))
         in sorted keys \<and> distinct keys
            \<and> set keys = set (dict_keys d1) \<union> set (dict_keys d2)
            \<and> compare_items db s name1 name2 =
                (Inr (comparison_title k1 k2
                      @ concat (map (\<lambda>key. str ''- *'' @ capitalize db key @ str ''*: ''
                           @ k1 @ str '' '' @ arrow @ str '' ''
                           @ (case map_of d1 key of None \<Rightarrow> str ''N/A'' | Some v \<Rightarrow> v)
                           @ str '' | ''
                           @ k2 @ str '' '' @ arrow @ str '' ''
                           @ (case map_of d2 key of None \<Rightarrow> str ''N/A'' | Some v \<Rightarrow> v)
                           @ newline) keys)), s)"
proof -
  from normalize_name_map_Some [OF r1] names have n1: "k1 \<noteq> []" by auto
  from normalize_name_map_Some [OF r2] names have n2: "k2 \<noteq> []" by auto
  from crop_like_nonempty [OF c1] have d1: "dict_or_empty (Dict d1) \<noteq> []"
    by (simp add: dict_or_empty_def)
  from crop_like_nonempty [OF c2] have d2: "dict_or_empty (Dict d2) \<noteq> []"
    by (simp add: dict_or_empty_def)
  have "compare_items db s name1 name2 =
          (Inr (comparison_title k1 k2
                @ concat (map (comparison_row db k1 k2 d1 d2)
                    (sorted_list_of_set (set (dict_keys d1) \<union> set (dict_keys d2))))), s)"
    using compare_items_Some [OF r1 r2 e1 e2] n1 n2 d1 d2
    by (simp add: dict_or_empty_def)
  then show ?thesis
    by (simp add: Let_def comparison_row_text)
qed

text \<open>
  C4. The comparator looks names up without regard to case. Called with case variants
  of two stored keys it returns what it returns for the stored keys themselves. Variant
  and stored key resolve to the same canonical key, a stored key that is a case variant
  of the given one (the given key itself when no two stored keys are case variants of
  each other), and what the comparator returns is the comparison of the two entries
  stored under the canonical keys: their title line and rows, or the warning when an
  entry is empty or no dictionary, or a canonical key is the empty name.
\<close>

theorem compare_items_case_insensitive:
  assumes k1: "k1 \<in> set (dict_keys (agri_data s))"
    and k2: "k2 \<in> set (dict_keys (agri_data s))"
    and v1: "case_variant db v1 k1"
    and v2: "case_variant db v2 k2"
  shows "compare_items db s v1 v2 = compare_items db s k1 k2
    \<and> (\<exists>c1 c2 e1 e2.
          c1 \<in> set (dict_keys (agri_data s)) \<and> case_variant db c1 k1
        \<and> c2 \<in> set (dict_keys (agri_data s)) \<and> case_variant db c2 k2
        \<and> dict_get (normalize_name_map db (dict_keys (agri_data s))) (lower db v1) = Some c1
        \<and> dict_get (normalize_name_map db (dict_keys (agri_data s))) (lower db k1) = Some c1
        \<and> dict_get (normalize_name_map db (dict_keys (agri_data s))) (lower db v2) = Some c2
        \<and> dict_get (normalize_name_map db (dict_keys (agri_data s))) (lower db k2) = Some c2
        \<and> map_of (agri_data s) c1 = Some e1 \<and> map_of (agri_data s) c2 = Some e2
        \<and> (distinct (map (lower db) (dict_keys (agri_data s))) \<longrightarrow> c1 = k1 \<and> c2 = k2)
        \<and> compare_items db s v1 v2 =
            (if c1 = [] \<or> c2 = [] then (Inr msg_not_found, s)
             else if dict_or_empty e1 = [] \<or> dict_or_empty e2 = []
             then (Inr msg_unsupported, s)
             else (Inr (comparison_title c1 c2
                        @ concat (map (comparison_row db c1 c2 (dict_or_empty e1)
                                         (dict_or_empty e2))
                            (sorted_list_of_set (set (dict_keys (dict_or_empty e1))
                               \<union> set (dict_keys (dict_or_empty e2)))))), s)))"
proof -
  let ?nm = "normalize_name_map db (dict_keys (agri_data s))"
  from v1 v2 have l1: "lower db v1 = lower db k1" and l2: "lower db v2 = lower db k2"
    by (simp_all add: case_variant_def)
  have same: "compare_items db s v1 v2 = compare_items db s k1 k2"
    by (rule compare_items_lower [OF l1 l2])
  from normalize_name_map_variant [OF k1 l1] obtain c1
    where c1: "c1 \<in> set (dict_keys (agri_data s))" "lower db c1 = lower db k1"
      and g1: "dict_get ?nm (lower db v1) = Some c1"
    by auto
  from normalize_name_map_variant [OF k2 l2] obtain c2
    where c2: "c2 \<in> set (dict_keys (agri_data s))" "lower db c2 = lower db k2"
      and g2: "dict_get ?nm (lower db v2) = Some c2"
    by auto
  from dict_index_member [OF c1(1)] obtain e1 where e1: "map_of (agri_data s) c1 = Some e1"
    by auto
  from dict_index_member [OF c2(1)] obtain e2 where e2: "map_of (agri_data s) c2 = Some e2"
    by auto
  have dist: "distinct (map (lower db) (dict_keys (agri_data s))) \<longrightarrow> c1 = k1 \<and> c2 = k2"
    using c1 c2 k1 k2 by (meson distinct_map inj_onD)
  note out = compare_items_Some [OF g1 g2 e1 e2]
  from g1 g2 l1 l2 have h1: "dict_get ?nm (lower db k1) = Some c1"
    and h2: "dict_get ?nm (lower db k2) = Some c2"
    by simp_all
  have cv: "case_variant db c1 k1" "case_variant db c2 k2"
    using c1(2) c2(2) by (simp_all add: case_variant_def)
  show ?thesis
    apply (rule conjI [OF same])
    apply (rule exI [of _ c1], rule exI [of _ c2], rule exI [of _ e1], rule exI [of _ e2])
    apply (intro conjI c1(1) c2(1) cv g1 g2 h1 h2 e1 e2 dist out)
    done
qed

text \<open>
  C5. When the lower-case form of either name is not the lower-case form of a stored key,
  \<open>compare_items\<close> returns the not-found warning. Whatever the names, it returns a text
  and never raises: the lookup \<open>agri_data[k]\<close> of lines 120 and 121 cannot fail, since
  \<open>k\<close> is a value of the name map.
\<close>

theorem compare_items_entry_not_found:
  "(lower db name1 \<notin> lower db ` set (dict_keys (agri_data s))
      \<or> lower db name2 \<notin> lower db ` set (dict_keys (agri_data s))
    \<longrightarrow> compare_items db s name1 name2 = (Inr msg_not_found, s))
   \<and> (\<exists>text. compare_items db s name1 name2 = (Inr text, s))"
  using compare_items_unresolved [of db name1 s name2]
    compare_items_returns [of db s name1 name2]
  by blast

text \<open>
  C9. \<open>compare_items\<close> hands the state back as it found it, so a second call with the same
  names returns what the first returned; and its result is that of a call on a state
  holding the same knowledge base and nothing else: it depends on the knowledge base and
  the two names only.
\<close>

theorem compare_items_pure:
  "snd (compare_items db s name1 name2) = s
   \<and> compare_items db (snd (compare_items db s name1 name2)) name1 name2
       = compare_items db s name1 name2
   \<and> compare_items db s name1 name2
       = (fst (compare_items db \<lparr>agri_data = agri_data s, messages = [], page = []\<rparr>
                 name1 name2), s)
   \<and> fst (compare_items db (s\<lparr>messages := ms, page := pg\<rparr>) name1 name2)
       = fst (compare_items db s name1 name2)"
proof -
  have "agri_data (s\<lparr>messages := ms, page := pg\<rparr>) = agri_data s" by simp
  from compare_items_frame [OF this] compare_items_kb_only [of db s name1 name2]
  show ?thesis
    by (simp add: compare_items_state)
qed

subsection \<open>The comparator on the knowledge base of the script\<close>

lemma agri_data_initial: "agri_data (initial_state db) = agri_data_value"
  by (simp add: initial_state_def)

lemma name_map_value:
  "normalize_name_map db (dict_keys agri_data_value) =
     [((str ''wheat''), (str ''Wheat'')), ((str ''rice''), (str ''Rice'')), ((str ''maize''), (str ''Maize'')),
      ((str ''sugarcane''), (str ''Sugarcane'')), ((str ''government schemes''), (str ''Government Schemes'')),
      ((str ''best practices''), (str ''Best Practices''))]"
  by code_simp

lemma initial_names_nonempty: "[] \<notin> set (dict_keys (agri_data (initial_state db)))"
  unfolding agri_data_initial by code_simp

lemma initial_names_distinct:
  "distinct (map (lower db) (dict_keys (agri_data (initial_state db))))"
  unfolding agri_data_initial by code_simp

lemma resolve_wheat:
  "dict_get (normalize_name_map db (dict_keys (agri_data (initial_state db))))
     (lower db (str ''wheat'')) = Some (str ''Wheat'')"
  unfolding agri_data_initial name_map_value by code_simp

lemma resolve_rice:
  "dict_get (normalize_name_map db (dict_keys (agri_data (initial_state db))))
     (lower db (str ''RICE'')) = Some (str ''Rice'')"
  unfolding agri_data_initial name_map_value by code_simp

lemma resolve_schemes:
  "dict_get (normalize_name_map db (dict_keys (agri_data (initial_state db))))
     (lower db (str ''government schemes'')) = Some (str ''Government Schemes'')"
  unfolding agri_data_initial name_map_value by code_simp

lemma wheat_entry:
  "map_of (agri_data (initial_state db)) (str ''Wheat'') = Some (Dict [((str ''season''), (str ''Rabi (October-March)'')),
        ((str ''soil''), (str ''Loamy soil with good drainage'')),
        ((str ''water''), (str ''Moderate irrigation; avoid waterlogging'')),
        ((str ''sowing''), (str ''Mid-Oct to Nov; seed rate 100-125 kg/ha'')),
        ((str ''fertilizer''), (str ''NPK 120:60:40 kg/ha'')),
        ((str ''harvesting''), (str ''March-April when grains are hard and golden'')),
        ((str ''common_issues''), (str ''Rust disease, waterlogging, lodging''))])"
  unfolding agri_data_initial by code_simp

lemma rice_entry:
  "map_of (agri_data (initial_state db)) (str ''Rice'') = Some (Dict [((str ''season''), (str ''Kharif (June-October) or Rabi in some regions'')),
        ((str ''soil''), (str ''Clayey soil with high water retention'')),
        ((str ''water''), (str ''Requires standing water in early stages; good drainage later'')),
        ((str ''sowing''), (str ''Nursery raising and transplanting after 20-25 days'')),
        ((str ''fertilizer''), (str ''Urea, DAP, MOP based on soil test'')),
        ((str ''harvesting''), (str ''Oct-Nov when panicles turn golden, grains hard'')),
        ((str ''common_issues''), (str ''Blast disease, brown planthopper, sheath blight''))])"
  unfolding agri_data_initial by code_simp

lemma schemes_entry:
  "map_of (agri_data (initial_state db)) (str ''Government Schemes'') = Some (Dict [((str ''PM-KISAN''),
           rupee @ (str ''6,000/year direct benefit to eligible farmers (in installments).'')),
        ((str ''Soil Health Card''), (str ''Soil nutrient profile with fertilizer recommendations.'')),
        ((str ''Kisan Credit Card''),
           (str ''Working capital loans for agriculture at subsidized rates.''))])"
  unfolding agri_data_initial by code_simp

lemma wheat_rice_keys:
  "sorted_list_of_set (set (dict_keys [((str ''season''), (str ''Rabi (October-March)'')),
        ((str ''soil''), (str ''Loamy soil with good drainage'')),
        ((str ''water''), (str ''Moderate irrigation; avoid waterlogging'')),
        ((str ''sowing''), (str ''Mid-Oct to Nov; seed rate 100-125 kg/ha'')),
        ((str ''fertilizer''), (str ''NPK 120:60:40 kg/ha'')),
        ((str ''harvesting''), (str ''March-April when grains are hard and golden'')),
        ((str ''common_issues''), (str ''Rust disease, waterlogging, lodging''))]) \<union> set (dict_keys [((str ''season''), (str ''Kharif (June-October) or Rabi in some regions'')),
        ((str ''soil''), (str ''Clayey soil with high water retention'')),
        ((str ''water''), (str ''Requires standing water in early stages; good drainage later'')),
        ((str ''sowing''), (str ''Nursery raising and transplanting after 20-25 days'')),
        ((str ''fertilizer''), (str ''Urea, DAP, MOP based on soil test'')),
        ((str ''harvesting''), (str ''Oct-Nov when panicles turn golden, grains hard'')),
        ((str ''common_issues''), (str ''Blast disease, brown planthopper, sheath blight''))])) =
      [(str ''common_issues''), (str ''fertilizer''), (str ''harvesting''), (str ''season''), (str ''soil''),
       (str ''sowing''), (str ''water'')]"
  by code_simp

lemma wheat_schemes_keys:
  "sorted_list_of_set (set (dict_keys [((str ''season''), (str ''Rabi (October-March)'')),
        ((str ''soil''), (str ''Loamy soil with good drainage'')),
        ((str ''water''), (str ''Moderate irrigation; avoid waterlogging'')),
        ((str ''sowing''), (str ''Mid-Oct to Nov; seed rate 100-125 kg/ha'')),
        ((str ''fertilizer''), (str ''NPK 120:60:40 kg/ha'')),
        ((str ''harvesting''), (str ''March-April when grains are hard and golden'')),
        ((str ''common_issues''), (str ''Rust disease, waterlogging, lodging''))]) \<union> set (dict_keys [((str ''PM-KISAN''),
           rupee @ (str ''6,000/year direct benefit to eligible farmers (in installments).'')),
        ((str ''Soil Health Card''), (str ''Soil nutrient profile with fertilizer recommendations.'')),
        ((str ''Kisan Credit Card''),
           (str ''Working capital loans for agriculture at subsidized rates.''))])) =
      [(str ''Kisan Credit Card''), (str ''PM-KISAN''), (str ''Soil Health Card''),
       (str ''common_issues''), (str ''fertilizer''), (str ''harvesting''), (str ''season''), (str ''soil''),
       (str ''sowing''), (str ''water'')]"
  by code_simp

lemma str_Nil_iff: "(str s = []) = (s = [])"
  by (simp add: str_def)

lemma wheat_rice_comparison:
  "compare_items db (initial_state db) (str ''wheat'') (str ''RICE'') =
     (Inr (comparison_title (str ''Wheat'') (str ''Rice'')
           @ concat (map (comparison_row db (str ''Wheat'') (str ''Rice'')
                [((str ''season''), (str ''Rabi (October-March)'')),
        ((str ''soil''), (str ''Loamy soil with good drainage'')),
        ((str ''water''), (str ''Moderate irrigation; avoid waterlogging'')),
        ((str ''sowing''), (str ''Mid-Oct to Nov; seed rate 100-125 kg/ha'')),
        ((str ''fertilizer''), (str ''NPK 120:60:40 kg/ha'')),
        ((str ''harvesting''), (str ''March-April when grains are hard and golden'')),
        ((str ''common_issues''), (str ''Rust disease, waterlogging, lodging''))]
                [((str ''season''), (str ''Kharif (June-October) or Rabi in some regions'')),
        ((str ''soil''), (str ''Clayey soil with high water retention'')),
        ((str ''water''), (str ''Requires standing water in early stages; good drainage later'')),
        ((str ''sowing''), (str ''Nursery raising and transplanting after 20-25 days'')),
        ((str ''fertilizer''), (str ''Urea, DAP, MOP based on soil test'')),
        ((str ''harvesting''), (str ''Oct-Nov when panicles turn golden, grains hard'')),
        ((str ''common_issues''), (str ''Blast disease, brown planthopper, sheath blight''))])
               [(str ''common_issues''), (str ''fertilizer''), (str ''harvesting''), (str ''season''), (str ''soil''),
                (str ''sowing''), (str ''water'')])), initial_state db)"
  using compare_items_Some
    [OF resolve_wheat [of db] resolve_rice [of db] wheat_entry [of db] rice_entry [of db]]
  by (simp add: dict_or_empty_def wheat_rice_keys str_Nil_iff)

theorem compare_items_attribute_rows_witness:
  "let d1 = [((str ''season''), (str ''Rabi (October-March)'')),
        ((str ''soil''), (str ''Loamy soil with good drainage'')),
        ((str ''water''), (str ''Moderate irrigation; avoid waterlogging'')),
        ((str ''sowing''), (str ''Mid-Oct to Nov; seed rate 100-125 kg/ha'')),
        ((str ''fertilizer''), (str ''NPK 120:60:40 kg/ha'')),
        ((str ''harvesting''), (str ''March-April when grains are hard and golden'')),
        ((str ''common_issues''), (str ''Rust disease, waterlogging, lodging''))];
       d2 = [((str ''season''), (str ''Kharif (June-October) or Rabi in some regions'')),
        ((str ''soil''), (str ''Clayey soil with high water retention'')),
        ((str ''water''), (str ''Requires standing water in early stages; good drainage later'')),
        ((str ''sowing''), (str ''Nursery raising and transplanting after 20-25 days'')),
        ((str ''fertilizer''), (str ''Urea, DAP, MOP based on soil test'')),
        ((str ''harvesting''), (str ''Oct-Nov when panicles turn golden, grains hard'')),
        ((str ''common_issues''), (str ''Blast disease, brown planthopper, sheath blight''))]
   in [] \<notin> set (dict_keys (agri_data (initial_state plain_db)))
      \<and> dict_get (normalize_name_map plain_db (dict_keys (agri_data (initial_state plain_db))))
           (lower plain_db (str ''wheat'')) = Some (str ''Wheat'')
      \<and> dict_get (normalize_name_map plain_db (dict_keys (agri_data (initial_state plain_db))))
           (lower plain_db (str ''RICE'')) = Some (str ''Rice'')
      \<and> map_of (agri_data (initial_state plain_db)) (str ''Wheat'') = Some (Dict d1)
      \<and> crop_like (Dict d1)
      \<and> map_of (agri_data (initial_state plain_db)) (str ''Rice'') = Some (Dict d2)
      \<and> crop_like (Dict d2)
      \<and> compare_items plain_db (initial_state plain_db) (str ''wheat'') (str ''RICE'') =
          (Inr (comparison_title (str ''Wheat'') (str ''Rice'')
                @ concat (map (comparison_row plain_db (str ''Wheat'') (str ''Rice'') d1 d2)
                    [(str ''common_issues''), (str ''fertilizer''), (str ''harvesting''), (str ''season''), (str ''soil''),
                     (str ''sowing''), (str ''water'')])), initial_state plain_db)"
proof -
  let ?d1 = "[((str ''season''), (str ''Rabi (October-March)'')),
        ((str ''soil''), (str ''Loamy soil with good drainage'')),
        ((str ''water''), (str ''Moderate irrigation; avoid waterlogging'')),
        ((str ''sowing''), (str ''Mid-Oct to Nov; seed rate 100-125 kg/ha'')),
        ((str ''fertilizer''), (str ''NPK 120:60:40 kg/ha'')),
        ((str ''harvesting''), (str ''March-April when grains are hard and golden'')),
        ((str ''common_issues''), (str ''Rust disease, waterlogging, lodging''))]"
  let ?d2 = "[((str ''season''), (str ''Kharif (June-October) or Rabi in some regions'')),
        ((str ''soil''), (str ''Clayey soil with high water retention'')),
        ((str ''water''), (str ''Requires standing water in early stages; good drainage later'')),
        ((str ''sowing''), (str ''Nursery raising and transplanting after 20-25 days'')),
        ((str ''fertilizer''), (str ''Urea, DAP, MOP based on soil test'')),
        ((str ''harvesting''), (str ''Oct-Nov when panicles turn golden, grains hard'')),
        ((str ''common_issues''), (str ''Blast disease, brown planthopper, sheath blight''))]"
  have c1: "crop_like (Dict ?d1)" by code_simp
  have c2: "crop_like (Dict ?d2)" by code_simp
  from compare_items_attribute_rows
    [OF initial_names_nonempty resolve_wheat resolve_rice wheat_entry c1 rice_entry c2,
      of plain_db]
  have "compare_items plain_db (initial_state plain_db) (str ''wheat'') (str ''RICE'') =
          (Inr (comparison_title (str ''Wheat'') (str ''Rice'')
                @ concat (map (comparison_row plain_db (str ''Wheat'') (str ''Rice'') ?d1 ?d2)
                    [(str ''common_issues''), (str ''fertilizer''), (str ''harvesting''), (str ''season''), (str ''soil''),
                     (str ''sowing''), (str ''water'')])), initial_state plain_db)"
    unfolding Let_def wheat_rice_keys comparison_row_text
    by (rule conjunct2 [OF conjunct2 [OF conjunct2]])
  with initial_names_nonempty [of plain_db] resolve_wheat [of plain_db]
    resolve_rice [of plain_db] wheat_entry [of plain_db] c1 rice_entry [of plain_db] c2
  show ?thesis
    unfolding Let_def by (intro conjI)
qed

theorem compare_items_case_insensitive_witness:
  "(str ''Wheat'') \<in> set (dict_keys (agri_data (initial_state plain_db)))
   \<and> (str ''Rice'') \<in> set (dict_keys (agri_data (initial_state plain_db)))
   \<and> case_variant plain_db (str ''wheat'') (str ''Wheat'')
   \<and> case_variant plain_db (str ''RICE'') (str ''Rice'')
   \<and> distinct (map (lower plain_db) (dict_keys (agri_data (initial_state plain_db))))
   \<and> compare_items plain_db (initial_state plain_db) (str ''wheat'') (str ''RICE'')
       = compare_items plain_db (initial_state plain_db) (str ''Wheat'') (str ''Rice'')
   \<and> dict_get (normalize_name_map plain_db (dict_keys (agri_data (initial_state plain_db))))
        (lower plain_db (str ''wheat'')) = Some (str ''Wheat'')
   \<and> dict_get (normalize_name_map plain_db (dict_keys (agri_data (initial_state plain_db))))
        (lower plain_db (str ''RICE'')) = Some (str ''Rice'')
   \<and> compare_items plain_db (initial_state plain_db) (str ''wheat'') (str ''RICE'') =
       (Inr (comparison_title (str ''Wheat'') (str ''Rice'')
             @ concat (map (comparison_row plain_db (str ''Wheat'') (str ''Rice'')
                  [((str ''season''), (str ''Rabi (October-March)'')),
        ((str ''soil''), (str ''Loamy soil with good drainage'')),
        ((str ''water''), (str ''Moderate irrigation; avoid waterlogging'')),
        ((str ''sowing''), (str ''Mid-Oct to Nov; seed rate 100-125 kg/ha'')),
        ((str ''fertilizer''), (str ''NPK 120:60:40 kg/ha'')),
        ((str ''harvesting''), (str ''March-April when grains are hard and golden'')),
        ((str ''common_issues''), (str ''Rust disease, waterlogging, lodging''))]
                  [((str ''season''), (str ''Kharif (June-October) or Rabi in some regions'')),
        ((str ''soil''), (str ''Clayey soil with high water retention'')),
        ((str ''water''), (str ''Requires standing water in early stages; good drainage later'')),
        ((str ''sowing''), (str ''Nursery raising and transplanting after 20-25 days'')),
        ((str ''fertilizer''), (str ''Urea, DAP, MOP based on soil test'')),
        ((str ''harvesting''), (str ''Oct-Nov when panicles turn golden, grains hard'')),
        ((str ''common_issues''), (str ''Blast disease, brown planthopper, sheath blight''))])
                 [(str ''common_issues''), (str ''fertilizer''), (str ''harvesting''), (str ''season''), (str ''soil''),
                  (str ''sowing''), (str ''water'')])), initial_state plain_db)"
proof -
  let ?s = "initial_state plain_db"
  have k1: "(str ''Wheat'') \<in> set (dict_keys (agri_data ?s))"
    unfolding agri_data_initial by code_simp
  have k2: "(str ''Rice'') \<in> set (dict_keys (agri_data ?s))"
    unfolding agri_data_initial by code_simp
  have v1: "case_variant plain_db (str ''wheat'') (str ''Wheat'')" by code_simp
  have v2: "case_variant plain_db (str ''RICE'') (str ''Rice'')" by code_simp
  note d = initial_names_distinct [of plain_db]
  from compare_items_case_insensitive [OF k1 k2 v1 v2]
  obtain c1 c2 e1 e2 where
    same: "compare_items plain_db ?s (str ''wheat'') (str ''RICE'')
             = compare_items plain_db ?s (str ''Wheat'') (str ''Rice'')"
    and g1: "dict_get (normalize_name_map plain_db (dict_keys (agri_data ?s)))
               (lower plain_db (str ''wheat'')) = Some c1"
    and g2: "dict_get (normalize_name_map plain_db (dict_keys (agri_data ?s)))
               (lower plain_db (str ''RICE'')) = Some c2"
    and e: "map_of (agri_data ?s) c1 = Some e1" "map_of (agri_data ?s) c2 = Some e2"
    and c: "distinct (map (lower plain_db) (dict_keys (agri_data ?s)))
              \<longrightarrow> c1 = (str ''Wheat'') \<and> c2 = (str ''Rice'')"
    and out: "compare_items plain_db ?s (str ''wheat'') (str ''RICE'') =
            (if c1 = [] \<or> c2 = [] then (Inr msg_not_found, ?s)
             else if dict_or_empty e1 = [] \<or> dict_or_empty e2 = []
             then (Inr msg_unsupported, ?s)
             else (Inr (comparison_title c1 c2
                        @ concat (map (comparison_row plain_db c1 c2 (dict_or_empty e1)
                                         (dict_or_empty e2))
                            (sorted_list_of_set (set (dict_keys (dict_or_empty e1))
                               \<union> set (dict_keys (dict_or_empty e2)))))), ?s))"
    by blast
  from c d have cs: "c1 = (str ''Wheat'')" "c2 = (str ''Rice'')" by simp_all
  from e cs wheat_entry [of plain_db] rice_entry [of plain_db]
  have es: "e1 = Dict [((str ''season''), (str ''Rabi (October-March)'')),
        ((str ''soil''), (str ''Loamy soil with good drainage'')),
        ((str ''water''), (str ''Moderate irrigation; avoid waterlogging'')),
        ((str ''sowing''), (str ''Mid-Oct to Nov; seed rate 100-125 kg/ha'')),
        ((str ''fertilizer''), (str ''NPK 120:60:40 kg/ha'')),
        ((str ''harvesting''), (str ''March-April when grains are hard and golden'')),
        ((str ''common_issues''), (str ''Rust disease, waterlogging, lodging''))]"
    "e2 = Dict [((str ''season''), (str ''Kharif (June-October) or Rabi in some regions'')),
        ((str ''soil''), (str ''Clayey soil with high water retention'')),
        ((str ''water''), (str ''Requires standing water in early stages; good drainage later'')),
        ((str ''sowing''), (str ''Nursery raising and transplanting after 20-25 days'')),
        ((str ''fertilizer''), (str ''Urea, DAP, MOP based on soil test'')),
        ((str ''harvesting''), (str ''Oct-Nov when panicles turn golden, grains hard'')),
        ((str ''common_issues''), (str ''Blast disease, brown planthopper, sheath blight''))]"
    by simp_all
  have r: "compare_items plain_db ?s (str ''wheat'') (str ''RICE'') =
       (Inr (comparison_title (str ''Wheat'') (str ''Rice'')
             @ concat (map (comparison_row plain_db (str ''Wheat'') (str ''Rice'')
                  [((str ''season''), (str ''Rabi (October-March)'')),
        ((str ''soil''), (str ''Loamy soil with good drainage'')),
        ((str ''water''), (str ''Moderate irrigation; avoid waterlogging'')),
        ((str ''sowing''), (str ''Mid-Oct to Nov; seed rate 100-125 kg/ha'')),
        ((str ''fertilizer''), (str ''NPK 120:60:40 kg/ha'')),
        ((str ''harvesting''), (str ''March-April when grains are hard and golden'')),
        ((str ''common_issues''), (str ''Rust disease, waterlogging, lodging''))]
                  [((str ''season''), (str ''Kharif (June-October) or Rabi in some regions'')),
        ((str ''soil''), (str ''Clayey soil with high water retention'')),
        ((str ''water''), (str ''Requires standing water in early stages; good drainage later'')),
        ((str ''sowing''), (str ''Nursery raising and transplanting after 20-25 days'')),
        ((str ''fertilizer''), (str ''Urea, DAP, MOP based on soil test'')),
        ((str ''harvesting''), (str ''Oct-Nov when panicles turn golden, grains hard'')),
        ((str ''common_issues''), (str ''Blast disease, brown planthopper, sheath blight''))])
                 [(str ''common_issues''), (str ''fertilizer''), (str ''harvesting''), (str ''season''), (str ''soil''),
                  (str ''sowing''), (str ''water'')])), ?s)"
    unfolding out cs es by (simp add: dict_or_empty_def wheat_rice_keys str_Nil_iff)
  from g1 g2 cs have gs:
    "dict_get (normalize_name_map plain_db (dict_keys (agri_data ?s)))
       (lower plain_db (str ''wheat'')) = Some (str ''Wheat'')"
    "dict_get (normalize_name_map plain_db (dict_keys (agri_data ?s)))
       (lower plain_db (str ''RICE'')) = Some (str ''Rice'')"
    by simp_all
  from k1 k2 v1 v2 d same gs r show ?thesis by (intro conjI)
qed

lemma quinoa_unknown:
  "lower db (str ''Quinoa'') \<notin> lower db ` set (dict_keys (agri_data (initial_state db)))"
  unfolding agri_data_initial by code_simp

theorem compare_items_entry_not_found_witness:
  "lower plain_db (str ''Quinoa'')
     \<notin> lower plain_db ` set (dict_keys (agri_data (initial_state plain_db)))
   \<and> compare_items plain_db (initial_state plain_db) (str ''Wheat'') (str ''Quinoa'')
       = (Inr msg_not_found, initial_state plain_db)"
  using compare_items_entry_not_found
      [of plain_db "(str ''Wheat'')" "initial_state plain_db" "(str ''Quinoa'')"]
    quinoa_unknown [of plain_db]
  by blast

lemma pm_kisan_unknown:
  "lower db (str ''PM-KISAN'') \<notin> lower db ` set (dict_keys (agri_data (initial_state db)))"
  unfolding agri_data_initial by code_simp

lemma compare_wheat_pm_kisan:
  "compare_items db (initial_state db) (str ''Wheat'') (str ''PM-KISAN'')
     = (Inr msg_not_found, initial_state db)"
  by (rule compare_items_unresolved) (simp add: pm_kisan_unknown)

lemma msg_not_found_neq_unsupported: "msg_not_found \<noteq> msg_unsupported"
  by (simp add: msg_not_found_def msg_unsupported_def str_def)

text \<open>
  C6, as stated, fails: comparing Wheat with PM-KISAN does not give the warning for an
  unsupported comparison.
\<close>

theorem compare_wheat_pm_kisan_not_unsupported:
  "fst (compare_items plain_db (initial_state plain_db) (str ''Wheat'') (str ''PM-KISAN''))
     \<noteq> Inr msg_unsupported"
  by (simp add: compare_wheat_pm_kisan msg_not_found_neq_unsupported)

text \<open>
  C6, amended. PM-KISAN is a key inside the entry Government Schemes and not a display
  name of the knowledge base; the name map holds display names only, so comparing Wheat
  with PM-KISAN gives the not-found warning.
\<close>

theorem compare_wheat_pm_kisan_not_found:
  "(str ''PM-KISAN'') \<notin> set (dict_keys (agri_data (initial_state db)))
   \<and> dict_get (normalize_name_map db (dict_keys (agri_data (initial_state db))))
        (lower db (str ''PM-KISAN'')) = None
   \<and> compare_items db (initial_state db) (str ''Wheat'') (str ''PM-KISAN'')
       = (Inr msg_not_found, initial_state db)"
proof -
  have "(str ''PM-KISAN'') \<notin> set (dict_keys (agri_data (initial_state db)))"
    unfolding agri_data_initial by code_simp
  moreover have "dict_get (normalize_name_map db (dict_keys (agri_data (initial_state db))))
      (lower db (str ''PM-KISAN'')) = None"
    using pm_kisan_unknown by (simp add: normalize_name_map_None)
  ultimately show ?thesis
    using compare_wheat_pm_kisan by simp
qed

lemma title_neq_unsupported: "comparison_title k1 k2 @ rest \<noteq> msg_unsupported"
  by (simp add: comparison_title_def msg_unsupported_def cross_mark_def str_def)

text \<open>
  C2. The entry Government Schemes holds neither \<open>season\<close> nor \<open>soil\<close> and is not in the
  browse list of crops, yet comparing Wheat with it does not give the warning of line 124
  (comparison is only supported for crop entries): line 123 rejects an entry only when it
  is empty or not a dictionary, and the comparator returns a table of ten rows in which
  one side of each row is \<open>N/A\<close>.
\<close>

theorem compare_items_flat_entry_compared:
  "(str ''Government Schemes'') \<notin> set (crop_like_items (initial_state db))
   \<and> compare_items db (initial_state db) (str ''wheat'') (str ''government schemes'') =
       (Inr (comparison_title (str ''Wheat'') (str ''Government Schemes'')
             @ concat (map (comparison_row db (str ''Wheat'') (str ''Government Schemes'')
                  [((str ''season''), (str ''Rabi (October-March)'')),
        ((str ''soil''), (str ''Loamy soil with good drainage'')),
        ((str ''water''), (str ''Moderate irrigation; avoid waterlogging'')),
        ((str ''sowing''), (str ''Mid-Oct to Nov; seed rate 100-125 kg/ha'')),
        ((str ''fertilizer''), (str ''NPK 120:60:40 kg/ha'')),
        ((str ''harvesting''), (str ''March-April when grains are hard and golden'')),
        ((str ''common_issues''), (str ''Rust disease, waterlogging, lodging''))]
                  [((str ''PM-KISAN''),
           rupee @ (str ''6,000/year direct benefit to eligible farmers (in installments).'')),
        ((str ''Soil Health Card''), (str ''Soil nutrient profile with fertilizer recommendations.'')),
        ((str ''Kisan Credit Card''),
           (str ''Working capital loans for agriculture at subsidized rates.''))])
                 [(str ''Kisan Credit Card''), (str ''PM-KISAN''), (str ''Soil Health Card''),
                  (str ''common_issues''), (str ''fertilizer''), (str ''harvesting''), (str ''season''), (str ''soil''),
                  (str ''sowing''), (str ''water'')])), initial_state db)
   \<and> fst (compare_items db (initial_state db) (str ''wheat'') (str ''government schemes''))
       \<noteq> Inr msg_unsupported"
proof -
  have nc: "(str ''Government Schemes'') \<notin> set (crop_like_items (initial_state db))"
    unfolding crop_like_items_def agri_data_initial by code_simp
  have r: "compare_items db (initial_state db) (str ''wheat'') (str ''government schemes'') =
       (Inr (comparison_title (str ''Wheat'') (str ''Government Schemes'')
             @ concat (map (comparison_row db (str ''Wheat'') (str ''Government Schemes'')
                  [((str ''season''), (str ''Rabi (October-March)'')),
        ((str ''soil''), (str ''Loamy soil with good drainage'')),
        ((str ''water''), (str ''Moderate irrigation; avoid waterlogging'')),
        ((str ''sowing''), (str ''Mid-Oct to Nov; seed rate 100-125 kg/ha'')),
        ((str ''fertilizer''), (str ''NPK 120:60:40 kg/ha'')),
        ((str ''harvesting''), (str ''March-April when grains are hard and golden'')),
        ((str ''common_issues''), (str ''Rust disease, waterlogging, lodging''))]
                  [((str ''PM-KISAN''),
           rupee @ (str ''6,000/year direct benefit to eligible farmers (in installments).'')),
        ((str ''Soil Health Card''), (str ''Soil nutrient profile with fertilizer recommendations.'')),
        ((str ''Kisan Credit Card''),
           (str ''Working capital loans for agriculture at subsidized rates.''))])
                 [(str ''Kisan Credit Card''), (str ''PM-KISAN''), (str ''Soil Health Card''),
                  (str ''common_issues''), (str ''fertilizer''), (str ''harvesting''), (str ''season''), (str ''soil''),
                  (str ''sowing''), (str ''water'')])), initial_state db)"
    using compare_items_Some
      [OF resolve_wheat [of db] resolve_schemes [of db] wheat_entry [of db]
        schemes_entry [of db]]
    by (simp add: dict_or_empty_def wheat_schemes_keys str_Nil_iff)
  show ?thesis
    by (intro conjI nc r)
      (simp only: r fst_conv sum.inject title_neq_unsupported not_False_eq_True)
qed

section \<open>The router\<close>

lemma strip_prefix: "\<exists>zs. dropWhile isspace s = strip s @ zs"
proof -
  let ?ys = "dropWhile isspace s"
  have "rev (takeWhile isspace (rev ?ys) @ dropWhile isspace (rev ?ys)) = ?ys"
    by (simp only: takeWhile_dropWhile_id rev_rev_ident)
  then have "strip s @ rev (takeWhile isspace (rev ?ys)) = ?ys"
    by (simp only: rev_append strip_def)
  then show ?thesis by metis
qed

lemma strip_hd: assumes "strip s \<noteq> []" shows "\<not> isspace (hd (strip s))"
proof -
  from strip_prefix obtain zs where z: "dropWhile isspace s = strip s @ zs" by blast
  with assms have "hd (dropWhile isspace s) = hd (strip s)" by simp
  moreover from z assms have "dropWhile isspace s \<noteq> []" by simp
  then have "\<not> isspace (hd (dropWhile isspace s))" by (rule hd_dropWhile)
  ultimately show ?thesis by simp
qed

lemma strip_last: assumes "strip s \<noteq> []" shows "\<not> isspace (last (strip s))"
proof -
  let ?ys = "rev (dropWhile isspace s)"
  from assms have n: "dropWhile isspace ?ys \<noteq> []" by (simp add: strip_def)
  then have "\<not> isspace (hd (dropWhile isspace ?ys))" by (rule hd_dropWhile)
  with n show ?thesis by (simp add: strip_def last_rev)
qed

lemma replace_from_absent:
  "\<not> str_in old s \<Longrightarrow> replace_from old new s = s"
  by (induction old new s rule: replace_from.induct) auto

lemma replace_from_prefix:
  assumes "old \<noteq> []" "startswith s old"
  shows "replace_from old new s = new @ replace_from old new (drop (length old) s)"
proof (cases s)
  case Nil
  with assms show ?thesis by (simp add: startswith_def)
next
  case (Cons c cs)
  with assms show ?thesis by simp
qed

lemma find_split_None: "sep \<noteq> [] \<Longrightarrow> (find_split sep s = None) = (\<not> str_in sep s)"
  by (induction s) auto

lemma find_split_Some: "find_split sep s = Some (a, b) \<Longrightarrow> s = a @ sep @ b"
proof (induction s arbitrary: a)
  case Nil
  then show ?case by (simp split: if_splits)
next
  case (Cons c cs)
  show ?case
  proof (cases "startswith (c # cs) sep")
    case True
    with Cons.prems have "a = []" "b = drop (length sep) (c # cs)" by simp_all
    moreover from True have "c # cs = sep @ drop (length sep) (c # cs)"
      unfolding startswith_def by (metis append_take_drop_id)
    ultimately show ?thesis by simp
  next
    case False
    with Cons.prems obtain a' where "find_split sep cs = Some (a', b)" "a = c # a'"
      by auto
    with Cons.IH show ?thesis by simp
  qed
qed

lemma strip_sides_nonempty:
  assumes t: "strip x = a @ sep @ b"
    and sep: "sep \<noteq> []" "isspace (hd sep)" "isspace (last sep)"
  shows "a \<noteq> [] \<and> b \<noteq> []"
proof -
  from t sep have ne: "strip x \<noteq> []" by simp
  have "a \<noteq> []"
  proof
    assume "a = []"
    with t sep have "hd (strip x) = hd sep" by simp
    with strip_hd [OF ne] sep show False by simp
  qed
  moreover have "b \<noteq> []"
  proof
    assume "b = []"
    with t sep have "last (strip x) = last sep" by simp
    with strip_last [OF ne] sep show False by simp
  qed
  ultimately show ?thesis ..
qed

lemma unpack_found:
  assumes f: "find_split sep (strip x) = Some (a, b)"
    and sep: "sep \<noteq> []" "isspace (hd sep)" "isspace (last sep)"
  shows "str_in sep (strip x)"
    and "unpack2 (split_max1 (strip x) sep) = Inr (Some a, Some b)"
    and "a \<noteq> []" and "b \<noteq> []"
proof -
  from f sep show "str_in sep (strip x)"
    using find_split_None [of sep "strip x"] by simp
  from f sep show "unpack2 (split_max1 (strip x) sep) = Inr (Some a, Some b)"
    by (simp add: unpack2_def split_max1_def)
  from strip_sides_nonempty [OF find_split_Some [OF f] sep]
  show "a \<noteq> []" and "b \<noteq> []" by simp_all
qed

lemma sep_and: "(str '' and '') \<noteq> []" "isspace (hd (str '' and ''))" "isspace (last (str '' and ''))"
  by (simp_all add: isspace_def str_def)

lemma sep_vs: "(str '' vs '') \<noteq> []" "isspace (hd (str '' vs ''))" "isspace (last (str '' vs ''))"
  by (simp_all add: isspace_def str_def)

text \<open>What lines 157 to 169 do with \<open>temp\<close>.\<close>

lemma route_compare:
  assumes "startswith (strip (lower db user_input)) (str ''compare'')"
  shows "route db user_input =
           Inr (split_sides (strip (replace (strip (lower db user_input)) (str ''compare'') [])))"
proof -
  let ?t = "strip (replace (strip (lower db user_input)) (str ''compare'') [])"
  show ?thesis
  proof (cases "find_split (str '' and '') ?t")
    case (Some ab)
    obtain a b where ab: "ab = (a, b)" by (cases ab)
    from unpack_found [OF Some [unfolded ab] sep_and] Some ab assms
    show ?thesis
      by (simp add: route_def split_sides_def Let_def)
  next
    case None
    then have na: "\<not> str_in (str '' and '') ?t"
      using find_split_None [of "(str '' and '')" ?t] sep_and(1) by simp
    show ?thesis
    proof (cases "find_split (str '' vs '') ?t")
      case (Some ab)
      obtain a b where ab: "ab = (a, b)" by (cases ab)
      from unpack_found [OF Some [unfolded ab] sep_vs] Some ab assms None na
      show ?thesis
        by (simp add: route_def split_sides_def Let_def)
    next
      case nv: None
      then have "\<not> str_in (str '' vs '') ?t"
        using find_split_None [of "(str '' vs '')" ?t] sep_vs(1) by simp
      with nv None na assms show ?thesis
        by (simp add: route_def split_sides_def Let_def)
    qed
  qed
qed

lemma route_question:
  "\<not> startswith (strip (lower db user_input)) (str ''compare'') \<Longrightarrow>
   route db user_input = Inr Question"
  by (simp add: route_def Let_def)

lemma split_sides_not_question: "split_sides t \<noteq> Question"
  by (simp add: split_sides_def split: option.splits)

lemma replace_leading_compare:
  assumes s: "startswith low (str ''compare'')"
    and h: "\<not> str_in (str ''compare'') (drop (length (str ''compare'')) low)"
  shows "replace low (str ''compare'') [] = drop (length (str ''compare'')) low"
proof -
  have ne: "(str ''compare'') \<noteq> []" by (simp add: str_def)
  then have "replace low (str ''compare'') [] = replace_from (str ''compare'') [] low"
    by (simp add: replace_def)
  also from s ne have "\<dots> = [] @ replace_from (str ''compare'') [] (drop (length (str ''compare'')) low)"
    by (intro replace_from_prefix)
  also have "\<dots> = drop (length (str ''compare'')) low"
    by (simp only: replace_from_absent [OF h] append_Nil)
  finally show ?thesis .
qed

text \<open>
  C3, amended. A submission takes the comparison branch exactly when, in lower case and
  trimmed, it begins with the characters \<open>compare\<close>, whatever follows them; the router
  never raises. When the text after those leading characters holds no further \<open>compare\<close>,
  the router trims that text and then splits it at the first \<open>'' and ''\<close>, or else at the
  first \<open>'' vs ''\<close>, trims each side and calls the comparator with the two sides; with
  neither separator in the trimmed text the command is malformed.
\<close>

theorem route_trimmed_remainder:
  "(route db user_input = Inr Question)
     = (\<not> startswith (strip (lower db user_input)) (str ''compare''))
   \<and> (\<exists>r. route db user_input = Inr r)
   \<and> (\<not> str_in (str ''compare'') (drop (length (str ''compare'')) (strip (lower db user_input)))
        \<longrightarrow> route db user_input = Inr (route_spec_trimmed db user_input))"
proof (cases "startswith (strip (lower db user_input)) (str ''compare'')")
  case True
  from route_compare [OF True] True show ?thesis
    by (auto simp: split_sides_not_question route_spec_trimmed_def Let_def
        replace_leading_compare)
next
  case False
  from route_question [OF False] False show ?thesis
    by (simp add: route_spec_trimmed_def Let_def)
qed

text \<open>The three commands that the specification gives as examples, under its own rule.\<close>

lemma route_spec_examples:
  "route_spec db (str ''Compare Wheat and Rice'') = Compare (str ''wheat'') (str ''rice'')"
  "route_spec db (str ''compare wheat vs maize'') = Compare (str ''wheat'') (str ''maize'')"
  "route_spec db (str ''compare wheat'') = Malformed"
  by code_simp+

text \<open>Three ASCII lines on which code and rule part, whatever the database.\<close>

lemma route_differs_any_db:
  "route db (str ''compare and rice'') = Inr Malformed
   \<and> route_spec db (str ''compare and rice'') = Compare [] (str ''rice'')
   \<and> route db (str ''comparewheat and rice'') = Inr (Compare (str ''wheat'') (str ''rice''))
   \<and> route_spec db (str ''comparewheat and rice'') = Question
   \<and> route db (str ''compare a and compareb'') = Inr (Compare (str ''a'') (str ''b''))
   \<and> route_spec db (str ''compare a and compareb'') = Compare (str ''a'') (str ''compareb'')"
  by code_simp

text \<open>
  C3, as stated, fails. The script trims the remainder before it looks for a separator,
  so a command with nothing before the separator is malformed and the comparator is not
  called with an empty name. It tests for the leading characters \<open>compare\<close> and not for a
  word, so a line that begins with \<open>comparewheat\<close> is a comparison. It also deletes every
  \<open>compare\<close> of the line, not the leading one only.
\<close>

theorem route_spec_differs:
  "route plain_db (str ''compare and rice'') = Inr Malformed
   \<and> route_spec plain_db (str ''compare and rice'') = Compare [] (str ''rice'')
   \<and> route plain_db (str ''comparewheat and rice'') = Inr (Compare (str ''wheat'') (str ''rice''))
   \<and> route_spec plain_db (str ''comparewheat and rice'') = Question
   \<and> route plain_db (str ''compare a and compareb'') = Inr (Compare (str ''a'') (str ''b''))
   \<and> route_spec plain_db (str ''compare a and compareb'') = Compare (str ''a'') (str ''compareb'')"
  by (rule route_differs_any_db)

theorem route_trimmed_remainder_witness:
  "\<not> str_in (str ''compare'')
       (drop (length (str ''compare'')) (strip (lower plain_db (str ''Compare Wheat and Rice''))))
   \<and> route plain_db (str ''Compare Wheat and Rice'') = Inr (Compare (str ''wheat'') (str ''rice''))
   \<and> \<not> str_in (str ''compare'')
       (drop (length (str ''compare'')) (strip (lower plain_db (str ''compare wheat vs maize''))))
   \<and> route plain_db (str ''compare wheat vs maize'') = Inr (Compare (str ''wheat'') (str ''maize''))
   \<and> \<not> str_in (str ''compare'')
       (drop (length (str ''compare'')) (strip (lower plain_db (str ''compare wheat''))))
   \<and> route plain_db (str ''compare wheat'') = Inr Malformed
   \<and> \<not> str_in (str ''compare'')
       (drop (length (str ''compare''))
          (strip (lower plain_db ([0xA0] @ (str ''compare wheat and rice'') @ [0x2003]))))
   \<and> route plain_db ([0xA0] @ (str ''compare wheat and rice'') @ [0x2003])
       = Inr (Compare (str ''wheat'') (str ''rice''))"
proof -
  have h1: "\<not> str_in (str ''compare'')
      (drop (length (str ''compare'')) (strip (lower plain_db (str ''Compare Wheat and Rice''))))"
    by code_simp
  have h2: "\<not> str_in (str ''compare'')
      (drop (length (str ''compare'')) (strip (lower plain_db (str ''compare wheat vs maize''))))"
    by code_simp
  have h3: "\<not> str_in (str ''compare'')
      (drop (length (str ''compare'')) (strip (lower plain_db (str ''compare wheat''))))"
    by code_simp
  have h4: "\<not> str_in (str ''compare'')
       (drop (length (str ''compare''))
          (strip (lower plain_db ([0xA0] @ (str ''compare wheat and rice'') @ [0x2003]))))"
    by code_simp
  have s1: "route_spec_trimmed plain_db (str ''Compare Wheat and Rice'')
      = Compare (str ''wheat'') (str ''rice'')"
    by code_simp
  have s2: "route_spec_trimmed plain_db (str ''compare wheat vs maize'')
      = Compare (str ''wheat'') (str ''maize'')"
    by code_simp
  have s3: "route_spec_trimmed plain_db (str ''compare wheat'') = Malformed"
    by code_simp
  have s4: "route_spec_trimmed plain_db ([0xA0] @ (str ''compare wheat and rice'') @ [0x2003])
      = Compare (str ''wheat'') (str ''rice'')"
    by code_simp
  from route_trimmed_remainder [of plain_db "(str ''Compare Wheat and Rice'')"] h1 s1
  have r1: "route plain_db (str ''Compare Wheat and Rice'') = Inr (Compare (str ''wheat'') (str ''rice''))"
    by metis
  from route_trimmed_remainder [of plain_db "(str ''compare wheat vs maize'')"] h2 s2
  have r2: "route plain_db (str ''compare wheat vs maize'') = Inr (Compare (str ''wheat'') (str ''maize''))"
    by metis
  from route_trimmed_remainder [of plain_db "(str ''compare wheat'')"] h3 s3
  have r3: "route plain_db (str ''compare wheat'') = Inr Malformed"
    by metis
  from route_trimmed_remainder [of plain_db "[0xA0] @ (str ''compare wheat and rice'') @ [0x2003]"]
    h4 s4
  have r4: "route plain_db ([0xA0] @ (str ''compare wheat and rice'') @ [0x2003])
       = Inr (Compare (str ''wheat'') (str ''rice''))"
    by metis
  from h1 h2 h3 h4 r1 r2 r3 r4 show ?thesis by (intro conjI)
qed

section \<open>A submission\<close>

lemma compare_input_nonempty:
  "startswith (strip (lower db user_input)) (str ''compare'') \<Longrightarrow> user_input \<noteq> []"
  by (auto simp: lower_def ascii_def lower_ascii_def strip_def startswith_def str_def)

lemma on_submit_routed_compare:
  assumes "user_input \<noteq> []" and "route db user_input = Inr (Compare c1 c2)"
    and "compare_items db s c1 c2 = (Inr md, s)"
  shows "on_submit db llm s user_input = (None, s\<lparr>page := page s @ [Markdown md]\<rparr>)"
  using assms by (simp add: on_submit_def)

lemma on_submit_routed_malformed:
  assumes "user_input \<noteq> []" and "route db user_input = Inr Malformed"
  shows "on_submit db llm s user_input = (None, s\<lparr>page := page s @ [Warning msg_usage]\<rparr>)"
  using assms by (simp add: on_submit_def)

lemma on_submit_routed_question:
  assumes "user_input \<noteq> []" and "route db user_input = Inr Question"
  shows "on_submit db llm s user_input =
    (case llm (messages s @ [HumanMessage user_input]) of
       Inl e \<Rightarrow> (Some e, s\<lparr>messages := messages s @ [HumanMessage user_input]\<rparr>)
     | Inr response \<Rightarrow>
         (None, s\<lparr>messages := messages s @ [HumanMessage user_input, response]\<rparr>))"
  using assms by (simp add: on_submit_def Let_def split: sum.splits)

text \<open>
  C7. A submission that takes the comparison branch (line 155) leaves the conversation as
  it was: the script shows one thing on the page, the comparator's text or the usage
  warning, and changes nothing else of the state; the chat model is not called and
  nothing is raised.
\<close>

theorem on_submit_compare_keeps_history:
  assumes "startswith (strip (lower db user_input)) (str ''compare'')"
  shows "messages (snd (on_submit db llm s user_input)) = messages s
    \<and> (\<exists>shown. on_submit db llm s user_input = (None, s\<lparr>page := page s @ [shown]\<rparr>))"
proof -
  let ?r = "split_sides (strip (replace (strip (lower db user_input)) (str ''compare'') []))"
  from assms have ne: "user_input \<noteq> []" by (rule compare_input_nonempty)
  from assms have r: "route db user_input = Inr ?r" by (rule route_compare)
  have "\<exists>shown. on_submit db llm s user_input = (None, s\<lparr>page := page s @ [shown]\<rparr>)"
  proof (cases ?r)
    case (Compare c1 c2)
    from compare_items_returns obtain md where "compare_items db s c1 c2 = (Inr md, s)"
      by blast
    from on_submit_routed_compare [OF ne r [unfolded Compare] this] show ?thesis
      by blast
  next
    case Malformed
    from on_submit_routed_malformed [OF ne r [unfolded Malformed]] show ?thesis
      by blast
  next
    case Question
    then show ?thesis by (simp add: split_sides_not_question)
  qed
  then show ?thesis by auto
qed

theorem on_submit_compare_keeps_history_witness:
  "startswith (strip (lower plain_db (str ''Compare Wheat and Rice''))) (str ''compare'')
   \<and> messages (snd (on_submit plain_db unreachable_llm (initial_state plain_db)
                      (str ''Compare Wheat and Rice'')))
       = messages (initial_state plain_db)
   \<and> startswith (strip (lower plain_db (str ''compare wheat''))) (str ''compare'')
   \<and> messages (snd (on_submit plain_db unreachable_llm (initial_state plain_db)
                      (str ''compare wheat'')))
       = messages (initial_state plain_db)
   \<and> startswith (strip (lower plain_db (str ''compare wheat and quinoa''))) (str ''compare'')
   \<and> messages (snd (on_submit plain_db unreachable_llm (initial_state plain_db)
                      (str ''compare wheat and quinoa'')))
       = messages (initial_state plain_db)
   \<and> startswith (strip (lower plain_db ([0xA0] @ (str ''compare wheat and rice'')))) (str ''compare'')
   \<and> messages (snd (on_submit plain_db unreachable_llm (initial_state plain_db)
                      ([0xA0] @ (str ''compare wheat and rice''))))
       = messages (initial_state plain_db)"
proof -
  have h1: "startswith (strip (lower plain_db (str ''Compare Wheat and Rice''))) (str ''compare'')"
    by code_simp
  have h2: "startswith (strip (lower plain_db (str ''compare wheat''))) (str ''compare'')"
    by code_simp
  have h3: "startswith (strip (lower plain_db (str ''compare wheat and quinoa''))) (str ''compare'')"
    by code_simp
  have h4: "startswith (strip (lower plain_db ([0xA0] @ (str ''compare wheat and rice''))))
      (str ''compare'')"
    by code_simp
  from on_submit_compare_keeps_history [OF h1] on_submit_compare_keeps_history [OF h2]
    on_submit_compare_keeps_history [OF h3] on_submit_compare_keeps_history [OF h4]
    h1 h2 h3 h4
  show ?thesis by blast
qed

text \<open>A question put to a chat model that raises, in any state and with any database.\<close>

lemma on_submit_llm_fails_any_db:
  "route db (str ''Best season to grow wheat?'') = Inr Question
   \<and> on_submit db unreachable_llm s (str ''Best season to grow wheat?'') =
       (Some CollaboratorError,
        s\<lparr>messages := messages s @ [HumanMessage (str ''Best season to grow wheat?'')]\<rparr>)
   \<and> length (messages (snd (on_submit db unreachable_llm s
         (str ''Best season to grow wheat?'')))) = length (messages s) + 1"
proof -
  have r: "route db (str ''Best season to grow wheat?'') = Inr Question"
    by code_simp
  have ne: "(str ''Best season to grow wheat?'') \<noteq> []" by (simp add: str_def)
  from on_submit_routed_question [OF ne r, of unreachable_llm s] r
  show ?thesis
    by (simp add: unreachable_llm_def)
qed

text \<open>
  C8, as stated, fails when the chat model raises: line 171 has appended the user message,
  line 174 is not reached, and the conversation has grown by one message, not two.
\<close>

theorem on_submit_question_llm_fails:
  "route plain_db (str ''Best season to grow wheat?'') = Inr Question
   \<and> on_submit plain_db unreachable_llm (initial_state plain_db)
        (str ''Best season to grow wheat?'') =
       (Some CollaboratorError,
        (initial_state plain_db)\<lparr>messages :=
          messages (initial_state plain_db) @ [HumanMessage (str ''Best season to grow wheat?'')]\<rparr>)
   \<and> length (messages (snd (on_submit plain_db unreachable_llm (initial_state plain_db)
         (str ''Best season to grow wheat?'')))) = length (messages (initial_state plain_db)) + 1"
  by (rule on_submit_llm_fails_any_db)

text \<open>
  C8, amended. For every non-empty submission that does not take the comparison branch
  (line 155) and for which the chat model returns a reply, the state afterwards is the
  state before with the user message and then that reply, as returned, at the end of the
  conversation.
\<close>

theorem on_submit_question_appends:
  assumes "user_input \<noteq> []"
    and "\<not> startswith (strip (lower db user_input)) (str ''compare'')"
    and "llm (messages s @ [HumanMessage user_input]) = Inr reply"
  shows "on_submit db llm s user_input =
           (None, s\<lparr>messages := messages s @ [HumanMessage user_input, reply]\<rparr>)"
  using on_submit_routed_question [OF assms(1) route_question [OF assms(2)], of llm s]
    assms(3)
  by simp

theorem on_submit_question_appends_witness:
  "(str ''Best season to grow wheat?'') \<noteq> []
   \<and> \<not> startswith (strip (lower plain_db (str ''Best season to grow wheat?''))) (str ''compare'')
   \<and> (\<lambda>conversation. Inr (AIMessage (str ''Rabi (October-March)'')))
        (messages (initial_state plain_db) @ [HumanMessage (str ''Best season to grow wheat?'')])
       = (Inr (AIMessage (str ''Rabi (October-March)'')) :: py_error + message)
   \<and> on_submit plain_db (\<lambda>conversation. Inr (AIMessage (str ''Rabi (October-March)'')))
        (initial_state plain_db) (str ''Best season to grow wheat?'') =
       (None, (initial_state plain_db)\<lparr>messages := messages (initial_state plain_db)
          @ [HumanMessage (str ''Best season to grow wheat?''),
             AIMessage (str ''Rabi (October-March)'')]\<rparr>)"
proof -
  have ne: "(str ''Best season to grow wheat?'') \<noteq> []" by (simp add: str_def)
  have q: "\<not> startswith (strip (lower plain_db (str ''Best season to grow wheat?''))) (str ''compare'')"
    by code_simp
  have l: "(\<lambda>conversation. Inr (AIMessage (str ''Rabi (October-March)'')))
        (messages (initial_state plain_db) @ [HumanMessage (str ''Best season to grow wheat?'')])
       = (Inr (AIMessage (str ''Rabi (October-March)'')) :: py_error + message)"
    by simp
  from on_submit_question_appends [OF ne q l] ne q show ?thesis
    by simp
qed

end
